theory Spec2Isabelle
  imports Main
begin

section \<open>JavaScript values and class objects\<close>

text \<open>
  The module \<^verbatim>\<open>src/model.js\<close> defines \<^verbatim>\<open>BaseModel\<close>, whose static accessors keep their
  caches in properties of the class object they are called on (\<^verbatim>\<open>this._tableName\<close>,
  \<^verbatim>\<open>this._relationMappings\<close>). A read of such a property walks the prototype chain of the
  class object, a write always creates or updates an own property. Both are modelled.
\<close>

type_synonym cid = nat  \<comment> \<open>identity of a class object (BaseModel or a subclass)\<close>
type_synonym oid = nat  \<comment> \<open>address of a relation-mapping object\<close>
type_synonym opaque = nat  \<comment> \<open>handle of a function or object passed through untouched\<close>

text \<open>The primitive values a caller can assign to \<^verbatim>\<open>tableName\<close> (numbers and objects are left out).\<close>

datatype jsval = JUndefined | JNull | JBool bool | JStr string

fun truthy :: "jsval \<Rightarrow> bool" where
  "truthy JUndefined = False"
| "truthy JNull = False"
| "truthy (JBool b) = b"
| "truthy (JStr s) = (s \<noteq> [])"

text \<open>The conversion a template literal applies to an interpolated value.\<close>

fun ToString :: "jsval \<Rightarrow> string" where
  "ToString JUndefined = ''undefined''"
| "ToString JNull = ''null''"
| "ToString (JBool b) = (if b then ''true'' else ''false'')"
| "ToString (JStr s) = s"

datatype error = TypeError | ModuleNotFound

datatype model_ref = ClassRef cid | ModuleName string

text \<open>
  What \<^verbatim>\<open>require\<close> returns: an exports object with a truthy \<^verbatim>\<open>default\<close>, or the class
  itself. \<^verbatim>\<open>modelClass.default || modelClass\<close> picks the class in both cases.
\<close>

datatype jsmodule = EsModule cid | CjsModule cid

record through_options =
  th_model :: "model_ref option"
  th_table :: "string option"
  th_from :: "string option"
  th_to :: "string option"
  th_extra :: "string list option"
  th_filter :: "opaque option"

record options =
  o_name :: "string option"
  o_joinFrom :: "string option"
  o_joinTo :: "string option"
  o_filter :: "opaque option"
  o_through :: "through_options option"

text \<open>One call made by a \<^verbatim>\<open>$relations\<close> hook on \<^verbatim>\<open>this\<close>.\<close>

datatype decl =
    BelongsTo model_ref options
  | HasOne model_ref options
  | HasMany model_ref options
  | HasManyThrough model_ref options

text \<open>
  A class object. \<open>supers\<close> is its prototype chain above it, nearest first, fixed by the
  \<^verbatim>\<open>extends\<close> clauses. Each \<open>_own\<close> field is an own property: \<open>None\<close> when the class
  object has no such property, so that a read goes on to the next class of the chain.
\<close>

record klass =
  name :: string
  supers :: "cid list"
  idColumn_own :: "string option"
  timestamps_own :: "bool option"
  tableName_own :: "jsval option"
  relationMappings_own :: "oid option option"
  relations_own :: "decl list option"

datatype relkind = BelongsToOneRelation | HasOneRelation | HasManyRelation | ManyToManyRelation

record through_spec =
  t_from :: string
  t_to :: string
  t_modelClass :: "cid option"
  t_extra :: "string list option"
  t_filter :: "opaque option"

record join_spec =
  j_from :: string
  j_to :: string
  j_through :: "through_spec option"

record mapping =
  relation :: relkind
  modelClass :: cid
  m_filter :: "opaque option"
  join :: join_spec

text \<open>
  The mutable world: the class objects, the heap of relation-mapping objects with its
  allocation pointer, the number of \<^verbatim>\<open>new Date()\<close> readings taken so far, and a ghost
  counter of the runs of the \<^verbatim>\<open>$relations\<close> hook per receiver.
\<close>

record world =
  classes :: "cid \<Rightarrow> klass"
  heap :: "oid \<Rightarrow> (string \<rightharpoonup> mapping)"
  next_oid :: oid
  clock_reads :: nat
  hook_runs :: "cid \<Rightarrow> nat"

text \<open>
  The collaborators the module imports or calls: lodash's \<^verbatim>\<open>camelCase\<close> and
  \<^verbatim>\<open>upperFirst\<close>, \<^verbatim>\<open>plural\<close> of \<^verbatim>\<open>./utils\<close>, Node's \<^verbatim>\<open>require\<close> (\<open>None\<close> when it
  throws) and \<^verbatim>\<open>process.cwd()\<close>, and the system clock as the sequence of its readings.
\<close>

record env =
  camelCase :: "string \<Rightarrow> string"
  upperFirst :: "string \<Rightarrow> string"
  plural :: "string \<Rightarrow> string"
  require :: "string \<Rightarrow> jsmodule option"
  cwd :: string
  clock :: "nat \<Rightarrow> int"

subsection \<open>Property reads along the prototype chain\<close>

fun first_own :: "(cid \<Rightarrow> 'a option) \<Rightarrow> cid list \<Rightarrow> 'a option" where
  "first_own own [] = None"
| "first_own own (c # cs) = (case own c of Some v \<Rightarrow> Some v | None \<Rightarrow> first_own own cs)"

definition lookup :: "(klass \<Rightarrow> 'a option) \<Rightarrow> world \<Rightarrow> cid \<Rightarrow> 'a option" where
  "lookup field w c = first_own (\<lambda>d. field (classes w d)) (c # supers (classes w c))"

text \<open>\<^verbatim>\<open>idColumn\<close> comes from objection's \<^verbatim>\<open>Model\<close>, where it is \<^verbatim>\<open>'id'\<close>.\<close>

definition idColumn :: "world \<Rightarrow> cid \<Rightarrow> string" where
  "idColumn w c = (case lookup idColumn_own w c of Some s \<Rightarrow> s | None \<Rightarrow> ''id'')"

text \<open>\<^verbatim>\<open>static timestamps = true\<close> on \<^verbatim>\<open>BaseModel\<close>, the end of every chain.\<close>

definition timestamps :: "world \<Rightarrow> cid \<Rightarrow> bool" where
  "timestamps w c = (case lookup timestamps_own w c of Some b \<Rightarrow> b | None \<Rightarrow> True)"

section \<open>Table names\<close>

text \<open>
  \<^verbatim>\<open>static get tableName() { this._tableName = this._tableName || this.name; return this._tableName; }\<close>
\<close>

definition get_tableName :: "world \<Rightarrow> cid \<Rightarrow> jsval \<times> world" where
  "get_tableName w this =
     (let cur = (case lookup tableName_own w this of Some v \<Rightarrow> v | None \<Rightarrow> JUndefined);
          v = (if truthy cur then cur else JStr (name (classes w this)))
      in (v, w\<lparr>classes := (classes w)(this := (classes w this)\<lparr>tableName_own := Some v\<rparr>)\<rparr>))"

text \<open>\<^verbatim>\<open>static set tableName(table) { this._tableName = table; }\<close>\<close>

definition set_tableName :: "world \<Rightarrow> cid \<Rightarrow> jsval \<Rightarrow> world" where
  "set_tableName w this table =
     w\<lparr>classes := (classes w)(this := (classes w this)\<lparr>tableName_own := Some table\<rparr>)\<rparr>"

section \<open>Resolving a relation target\<close>

text \<open>
  \<^verbatim>\<open>_getModelClass(model)\<close>: a class is returned as it is; a string is loaded with
  \<^verbatim>\<open>require\<close>, from the path itself when it starts with a dot or a slash and from
  \<^verbatim>\<open>${process.cwd()}/src/models/\<close> otherwise.
\<close>

definition startsWith :: "string \<Rightarrow> char \<Rightarrow> bool" where
  "startsWith s c = (case s of [] \<Rightarrow> False | x # _ \<Rightarrow> x = c)"

definition getModelClass :: "env \<Rightarrow> model_ref \<Rightarrow> error + cid" where
  "getModelClass E model =
     (case model of
        ClassRef c \<Rightarrow> Inr c
      | ModuleName s \<Rightarrow>
          (case require E (if startsWith s CHR ''.'' \<or> startsWith s CHR ''/'' then s
                           else cwd E @ ''/src/models/'' @ s) of
             None \<Rightarrow> Inl ModuleNotFound
           | Some (EsModule c) \<Rightarrow> Inr c
           | Some (CjsModule c) \<Rightarrow> Inr c))"

section \<open>The four relation declarations\<close>

text \<open>\<^verbatim>\<open>override || dflt\<close> on strings: the empty string is falsy, as is a missing option.\<close>

definition or_str :: "string option \<Rightarrow> string \<Rightarrow> string" where
  "or_str ov dflt = (case ov of None \<Rightarrow> dflt | Some s \<Rightarrow> if s \<noteq> [] then s else dflt)"

text \<open>
  The same when the default reads \<^verbatim>\<open>tableName\<close>: the getter, which writes its cache, runs
  only when the override is falsy.
\<close>

definition or_default ::
  "string option \<Rightarrow> (world \<Rightarrow> string \<times> world) \<Rightarrow> world \<Rightarrow> string \<times> world" where
  "or_default ov dflt w =
     (case ov of None \<Rightarrow> dflt w | Some s \<Rightarrow> if s \<noteq> [] then (s, w) else dflt w)"

text \<open>\<^verbatim>\<open>`${c.tableName}.${column}`\<close>\<close>

definition table_dot :: "cid \<Rightarrow> string \<Rightarrow> world \<Rightarrow> string \<times> world" where
  "table_dot c column w = (let (t, w') = get_tableName w c in (ToString t @ ''.'' @ column, w'))"

text \<open>
  \<^verbatim>\<open>this._relationMappings[name] = mapping\<close>: the object is found along the prototype
  chain; with none (or with \<^verbatim>\<open>undefined\<close> or \<^verbatim>\<open>null\<close> assigned) the write throws.
\<close>

definition store_mapping :: "world \<Rightarrow> cid \<Rightarrow> string \<Rightarrow> mapping \<Rightarrow> (error + unit) \<times> world" where
  "store_mapping w this nm m =
     (case lookup relationMappings_own w this of
        Some (Some ob) \<Rightarrow> (Inr (), w\<lparr>heap := (heap w)(ob := (heap w ob)(nm \<mapsto> m))\<rparr>)
      | _ \<Rightarrow> (Inl TypeError, w))"

definition belongsTo :: "env \<Rightarrow> world \<Rightarrow> cid \<Rightarrow> model_ref \<Rightarrow> options \<Rightarrow> (error + unit) \<times> world" where
  "belongsTo E w this model opts =
     (case getModelClass E model of
        Inl e \<Rightarrow> (Inl e, w)
      | Inr mc \<Rightarrow>
          (let nm = or_str (o_name opts) (camelCase E (name (classes w mc)));
               (joinFrom, w1) = or_default (o_joinFrom opts)
                  (table_dot mc (camelCase E (name (classes w this)) @ upperFirst E (idColumn w this))) w;
               (joinTo, w2) = or_default (o_joinTo opts) (table_dot this (idColumn w this)) w1
           in store_mapping w2 this nm
                \<lparr>relation = BelongsToOneRelation, modelClass = mc, m_filter = o_filter opts,
                 join = \<lparr>j_from = joinFrom, j_to = joinTo, j_through = None\<rparr>\<rparr>))"

definition hasOne :: "env \<Rightarrow> world \<Rightarrow> cid \<Rightarrow> model_ref \<Rightarrow> options \<Rightarrow> (error + unit) \<times> world" where
  "hasOne E w this model opts =
     (case getModelClass E model of
        Inl e \<Rightarrow> (Inl e, w)
      | Inr mc \<Rightarrow>
          (let nm = or_str (o_name opts) (camelCase E (name (classes w mc)));
               (joinFrom, w1) = or_default (o_joinFrom opts)
                  (table_dot this (camelCase E (name (classes w mc)) @ upperFirst E (idColumn w mc))) w;
               (joinTo, w2) = or_default (o_joinTo opts) (table_dot mc (idColumn w mc)) w1
           in store_mapping w2 this nm
                \<lparr>relation = HasOneRelation, modelClass = mc, m_filter = o_filter opts,
                 join = \<lparr>j_from = joinFrom, j_to = joinTo, j_through = None\<rparr>\<rparr>))"

definition hasMany :: "env \<Rightarrow> world \<Rightarrow> cid \<Rightarrow> model_ref \<Rightarrow> options \<Rightarrow> (error + unit) \<times> world" where
  "hasMany E w this model opts =
     (case getModelClass E model of
        Inl e \<Rightarrow> (Inl e, w)
      | Inr mc \<Rightarrow>
          (let nm = or_str (o_name opts) (plural E (camelCase E (name (classes w mc))));
               (joinFrom, w1) = or_default (o_joinFrom opts)
                  (table_dot mc (camelCase E (name (classes w this)) @ upperFirst E (idColumn w this))) w;
               (joinTo, w2) = or_default (o_joinTo opts) (table_dot this (idColumn w this)) w1
           in store_mapping w2 this nm
                \<lparr>relation = HasManyRelation, modelClass = mc, m_filter = o_filter opts,
                 join = \<lparr>j_from = joinFrom, j_to = joinTo, j_through = None\<rparr>\<rparr>))"

text \<open>
  \<^verbatim>\<open>options.through = options.through || {}\<close>: an object is always truthy, so only a
  missing \<^verbatim>\<open>through\<close> is replaced. (The assignment also writes the caller's options
  object, which nothing here reads again.)
\<close>

definition no_through :: through_options where
  "no_through = \<lparr>th_model = None, th_table = None, th_from = None, th_to = None,
                 th_extra = None, th_filter = None\<rparr>"

definition through_of :: "options \<Rightarrow> through_options" where
  "through_of opts = (case o_through opts of Some t \<Rightarrow> t | None \<Rightarrow> no_through)"

text \<open>\<^verbatim>\<open>if (options.through.model)\<close>: a class is truthy, a string unless it is empty.\<close>

definition truthy_model :: "model_ref option \<Rightarrow> model_ref option" where
  "truthy_model m =
     (case m of
        None \<Rightarrow> None
      | Some (ClassRef c) \<Rightarrow> Some (ClassRef c)
      | Some (ModuleName s) \<Rightarrow> if s \<noteq> [] then Some (ModuleName s) else None)"

definition hasManyThrough :: "env \<Rightarrow> world \<Rightarrow> cid \<Rightarrow> model_ref \<Rightarrow> options \<Rightarrow> (error + unit) \<times> world" where
  "hasManyThrough E w this model opts =
     (case getModelClass E model of
        Inl e \<Rightarrow> (Inl e, w)
      | Inr mc \<Rightarrow>
          (let nm = or_str (o_name opts) (plural E (camelCase E (name (classes w mc))));
               (joinFrom, w1) = or_default (o_joinFrom opts) (table_dot this (idColumn w this)) w;
               (joinTo, w2) = or_default (o_joinTo opts) (table_dot mc (idColumn w mc)) w1;
               th = through_of opts
           in (case (case truthy_model (th_model th) of
                       Some tm \<Rightarrow>
                         (case getModelClass E tm of
                            Inl e \<Rightarrow> Inl e
                          | Inr tc \<Rightarrow>
                              (let (throughTable, w3) = or_default (th_table th)
                                     (\<lambda>w. let (t, w') = get_tableName w tc in (ToString t, w')) w2
                               in Inr (Some tc, throughTable, w3)))
                     | None \<Rightarrow>
                         Inr (None,
                              or_str (th_table th)
                                (name (classes w this) @ ''_'' @ name (classes w mc)),
                              w2)) of
                 Inl e \<Rightarrow> (Inl e, w2)
               | Inr (throughClass, throughTable, w3) \<Rightarrow>
                   (let throughFrom = or_str (th_from th)
                          (throughTable @ ''.'' @ camelCase E (name (classes w this))
                             @ upperFirst E (idColumn w this));
                        throughTo = or_str (th_to th)
                          (throughTable @ ''.'' @ camelCase E (name (classes w mc))
                             @ upperFirst E (idColumn w mc))
                    in store_mapping w3 this nm
                         \<lparr>relation = ManyToManyRelation, modelClass = mc, m_filter = o_filter opts,
                          join = \<lparr>j_from = joinFrom, j_to = joinTo,
                                  j_through = Some \<lparr>t_from = throughFrom, t_to = throughTo,
                                     t_modelClass = throughClass, t_extra = th_extra th,
                                     t_filter = th_filter th\<rparr>\<rparr>\<rparr>))))"

section \<open>The relation-mapping cache\<close>

fun run_decl :: "env \<Rightarrow> world \<Rightarrow> cid \<Rightarrow> decl \<Rightarrow> (error + unit) \<times> world" where
  "run_decl E w this (BelongsTo m opts) = belongsTo E w this m opts"
| "run_decl E w this (HasOne m opts) = hasOne E w this m opts"
| "run_decl E w this (HasMany m opts) = hasMany E w this m opts"
| "run_decl E w this (HasManyThrough m opts) = hasManyThrough E w this m opts"

text \<open>The body of a \<^verbatim>\<open>$relations\<close> hook: its calls in order, left at the first throw.\<close>

fun run_relations :: "env \<Rightarrow> world \<Rightarrow> cid \<Rightarrow> decl list \<Rightarrow> (error + unit) \<times> world" where
  "run_relations E w this [] = (Inr (), w)"
| "run_relations E w this (d # ds) =
     (case run_decl E w this d of
        (Inl e, w') \<Rightarrow> (Inl e, w')
      | (Inr u, w') \<Rightarrow> run_relations E w' this ds)"

text \<open>\<^verbatim>\<open>this._relationMappings = {}\<close>: a fresh, empty object in an own property.\<close>

definition init_relationMappings :: "world \<Rightarrow> cid \<Rightarrow> world" where
  "init_relationMappings w this =
     w\<lparr>classes := (classes w)
          (this := (classes w this)\<lparr>relationMappings_own := Some (Some (next_oid w))\<rparr>),
       heap := (heap w)(next_oid w := Map.empty),
       next_oid := Suc (next_oid w)\<rparr>"

text \<open>
  \<^verbatim>\<open>static get relationMappings()\<close>. The hook it calls is \<^verbatim>\<open>this.$relations\<close>; the class
  declares \<^verbatim>\<open>static relations() {}\<close>, which the getter does not call, so the hook exists
  only where a class of the chain declares \<^verbatim>\<open>$relations\<close>, and the call throws otherwise.
  The result is the value of \<^verbatim>\<open>this._relationMappings\<close>: an object or \<^verbatim>\<open>undefined\<close>.
\<close>

definition get_relationMappings :: "env \<Rightarrow> world \<Rightarrow> cid \<Rightarrow> (error + oid option) \<times> world" where
  "get_relationMappings E w this =
     (case lookup relationMappings_own w this of
        Some (Some ob) \<Rightarrow> (Inr (Some ob), w)
      | _ \<Rightarrow>
          (let w1 = init_relationMappings w this
           in (case lookup relations_own w1 this of
                 None \<Rightarrow> (Inl TypeError, w1)
               | Some ds \<Rightarrow>
                   (case run_relations E
                           (w1\<lparr>hook_runs := (hook_runs w1)(this := Suc (hook_runs w1 this))\<rparr>)
                           this ds of
                      (Inl e, w2) \<Rightarrow> (Inl e, w2)
                    | (Inr u, w2) \<Rightarrow>
                        (Inr (case lookup relationMappings_own w2 this of
                                Some r \<Rightarrow> r | None \<Rightarrow> None), w2)))))"

text \<open>\<^verbatim>\<open>static set relationMappings(mappings) { this._relationMappings = mappings; }\<close>\<close>

definition set_relationMappings :: "world \<Rightarrow> cid \<Rightarrow> oid option \<Rightarrow> world" where
  "set_relationMappings w this mappings =
     w\<lparr>classes := (classes w)(this := (classes w this)\<lparr>relationMappings_own := Some mappings\<rparr>)\<rparr>"

section \<open>Timestamps before insert and update\<close>

record model_instance =
  constructor :: cid
  createdAt :: "int option"
  updatedAt :: "int option"

record query_context =
  dontTouch :: bool

text \<open>\<^verbatim>\<open>new Date()\<close>: the next reading of the clock, in milliseconds.\<close>

definition new_Date :: "env \<Rightarrow> world \<Rightarrow> int \<times> world" where
  "new_Date E w = (clock E (clock_reads w), w\<lparr>clock_reads := Suc (clock_reads w)\<rparr>)"

text \<open>
  \<^verbatim>\<open>$beforeInsert(context)\<close>: objection calls it as \<^verbatim>\<open>$beforeInsert(queryContext)\<close>. The
  method of objection's \<^verbatim>\<open>Model\<close> that it calls first has an empty body.
\<close>

definition beforeInsert :: "env \<Rightarrow> world \<Rightarrow> model_instance \<Rightarrow> query_context \<Rightarrow> model_instance \<times> world" where
  "beforeInsert E w this ctx =
     (if timestamps w (constructor this) \<and> \<not> dontTouch ctx then
        (let (t1, w1) = new_Date E w;
             (t2, w2) = new_Date E w1
         in (this\<lparr>createdAt := Some t1, updatedAt := Some t2\<rparr>, w2))
      else (this, w))"

text \<open>
  Objection's model options, the first argument of an update hook:
  \<^verbatim>\<open>{patch, skipValidation, old}\<close> (\<^verbatim>\<open>old\<close>, the previous record, is not read here). They
  have no \<^verbatim>\<open>dontTouch\<close> property, so reading it gives \<^verbatim>\<open>undefined\<close>.
\<close>

record model_options =
  patch :: bool
  skipValidation :: bool

definition options_dontTouch :: "model_options \<Rightarrow> jsval" where
  "options_dontTouch opt = JUndefined"

text \<open>
  \<^verbatim>\<open>$beforeUpdate(context)\<close>: objection calls it as \<^verbatim>\<open>$beforeUpdate(opt, queryContext)\<close>, so
  the single parameter \<^verbatim>\<open>context\<close> is bound to the model options and the query context,
  the second argument, is dropped: \<^verbatim>\<open>context.dontTouch\<close> is read from the options.
\<close>

definition beforeUpdate ::
  "env \<Rightarrow> world \<Rightarrow> model_instance \<Rightarrow> model_options \<Rightarrow> query_context \<Rightarrow> model_instance \<times> world" where
  "beforeUpdate E w this opt queryContext =
     (if timestamps w (constructor this) \<and> \<not> truthy (options_dontTouch opt) then
        (let (t, w1) = new_Date E w
         in (this\<lparr>updatedAt := Some t\<rparr>, w1))
      else (this, w))"

section \<open>The join-table rule as the specification words it\<close>

text \<open>An explicit override is one that \<^verbatim>\<open>||\<close> keeps: a string that is not empty.\<close>

definition given :: "string option \<Rightarrow> string option" where
  "given ov = (case ov of None \<Rightarrow> None | Some s \<Rightarrow> if s \<noteq> [] then Some s else None)"

text \<open>
  The join table is the explicit table override, else the table of the explicit through
  model, else owner name, underscore, target name.
\<close>

definition joinTable_by_precedence :: "string option \<Rightarrow> string option \<Rightarrow> string \<Rightarrow> string" where
  "joinTable_by_precedence table_override through_model_table conventional =
     (case table_override of
        Some s \<Rightarrow> s
      | None \<Rightarrow> (case through_model_table of Some t \<Rightarrow> t | None \<Rightarrow> conventional))"

text \<open>
  A string of \<^verbatim>\<open>options.through\<close> as the caller wrote it: explicit when there is a
  \<^verbatim>\<open>through\<close> object and the string in it is not empty.
\<close>

definition through_override :: "(through_options \<Rightarrow> string option) \<Rightarrow> options \<Rightarrow> string option" where
  "through_override field opts =
     (case o_through opts of None \<Rightarrow> None | Some th \<Rightarrow> given (field th))"

text \<open>The explicit through model: \<^verbatim>\<open>options.through.model\<close>, a class or a non-empty string.\<close>

definition explicit_through_model :: "options \<Rightarrow> model_ref option" where
  "explicit_through_model opts =
     (case o_through opts of
        None \<Rightarrow> None
      | Some th \<Rightarrow>
          (case th_model th of
             None \<Rightarrow> None
           | Some (ClassRef c) \<Rightarrow> Some (ClassRef c)
           | Some (ModuleName s) \<Rightarrow> if s = [] then None else Some (ModuleName s)))"

section \<open>What a hook declares, as the specification words it\<close>

text \<open>
  The name of a declared relation: the explicit override, else the convention, singular
  for \<^verbatim>\<open>belongsTo\<close> and \<^verbatim>\<open>hasOne\<close>, plural for \<^verbatim>\<open>hasMany\<close> and \<^verbatim>\<open>hasManyThrough\<close>.
\<close>

fun declared_name :: "env \<Rightarrow> world \<Rightarrow> decl \<Rightarrow> string option" where
  "declared_name E w (BelongsTo m opts) =
     (case getModelClass E m of Inl e \<Rightarrow> None
      | Inr mc \<Rightarrow> Some (or_str (o_name opts) (camelCase E (name (classes w mc)))))"
| "declared_name E w (HasOne m opts) =
     (case getModelClass E m of Inl e \<Rightarrow> None
      | Inr mc \<Rightarrow> Some (or_str (o_name opts) (camelCase E (name (classes w mc)))))"
| "declared_name E w (HasMany m opts) =
     (case getModelClass E m of Inl e \<Rightarrow> None
      | Inr mc \<Rightarrow> Some (or_str (o_name opts) (plural E (camelCase E (name (classes w mc))))))"
| "declared_name E w (HasManyThrough m opts) =
     (case getModelClass E m of Inl e \<Rightarrow> None
      | Inr mc \<Rightarrow> Some (or_str (o_name opts) (plural E (camelCase E (name (classes w mc))))))"

text \<open>A declaration whose target, and through model when one is given, can be loaded.\<close>

fun resolvable :: "env \<Rightarrow> decl \<Rightarrow> bool" where
  "resolvable E (BelongsTo m opts) = (\<not> isl (getModelClass E m))"
| "resolvable E (HasOne m opts) = (\<not> isl (getModelClass E m))"
| "resolvable E (HasMany m opts) = (\<not> isl (getModelClass E m))"
| "resolvable E (HasManyThrough m opts) =
     (\<not> isl (getModelClass E m) \<and>
      (case truthy_model (th_model (through_of opts)) of
         None \<Rightarrow> True
       | Some tm \<Rightarrow> \<not> isl (getModelClass E tm)))"

section \<open>What a declaration leaves unchanged\<close>

text \<open>
  The frame of a declaration that stores into object \<open>ob\<close>: only \<^verbatim>\<open>_tableName\<close> caches
  and the object \<open>ob\<close> change, and \<open>ob\<close> loses no key.
\<close>

definition decl_frame :: "oid \<Rightarrow> world \<Rightarrow> world \<Rightarrow> bool" where
  "decl_frame ob w w' \<longleftrightarrow>
     next_oid w' = next_oid w \<and> hook_runs w' = hook_runs w \<and> clock_reads w' = clock_reads w \<and>
     (\<forall>d. name (classes w' d) = name (classes w d) \<and>
          supers (classes w' d) = supers (classes w d) \<and>
          idColumn_own (classes w' d) = idColumn_own (classes w d) \<and>
          timestamps_own (classes w' d) = timestamps_own (classes w d) \<and>
          relationMappings_own (classes w' d) = relationMappings_own (classes w d) \<and>
          relations_own (classes w' d) = relations_own (classes w d)) \<and>
     (\<forall>ob'. ob' \<noteq> ob \<longrightarrow> heap w' ob' = heap w ob') \<and>
     (\<forall>k. heap w ob k \<noteq> None \<longrightarrow> heap w' ob k \<noteq> None)"

text \<open>
  The world in which the hook of \<open>c\<close> starts to run when the getter finds no mapping
  object: the own property initialised and the run counted.
\<close>

definition entered :: "world \<Rightarrow> cid \<Rightarrow> world" where
  "entered w c = (init_relationMappings w c)\<lparr>hook_runs := (hook_runs w)(c := Suc (hook_runs w c))\<rparr>"

section \<open>A sample program\<close>

text \<open>
  \<^verbatim>\<open>belongsTo(model)\<close> without a second argument: \<^verbatim>\<open>options = {}\<close>.
\<close>

definition no_options :: options where
  "no_options = \<lparr>o_name = None, o_joinFrom = None, o_joinTo = None, o_filter = None,
                  o_through = None\<rparr>"

text \<open>A class as its declaration leaves it: no cache written, nothing overridden.\<close>

definition new_class :: "string \<Rightarrow> cid list \<Rightarrow> decl list option \<Rightarrow> klass" where
  "new_class n sups hook =
     \<lparr>name = n, supers = sups, idColumn_own = None, timestamps_own = None,
      tableName_own = None, relationMappings_own = None, relations_own = hook\<rparr>"

text \<open>
  The results of lodash on the names used below, a plural that appends an s, one loadable
  module and a clock that advances by one millisecond per reading.
\<close>

definition sample_env :: env where
  "sample_env =
     \<lparr>camelCase = (\<lambda>s. if s = ''Pet'' then ''pet'' else if s = ''Person'' then ''person'' else s),
      upperFirst = (\<lambda>s. if s = ''id'' then ''Id'' else s),
      plural = (\<lambda>s. s @ ''s''),
      require = (\<lambda>p. if p = ''/app/src/models/Pet'' then Some (EsModule 1) else None),
      cwd = ''/app'',
      clock = (\<lambda>n. 1000 + int n)\<rparr>"

text \<open>
  \<^verbatim>\<open>class Person extends BaseModel { static $relations() { this.hasMany('Pet'); } }\<close>,
  \<^verbatim>\<open>class Pet extends BaseModel { static $relations() { this.belongsTo(Person); } }\<close>,
  \<^verbatim>\<open>class Employee extends Person { static $relations() { this.hasOne(Pet); } }\<close> and
  \<^verbatim>\<open>class Audit extends BaseModel { static timestamps = false; }\<close>, before any access
  (every further class object is a copy of the last).
\<close>

definition sample_world :: world where
  "sample_world =
     \<lparr>classes = (\<lambda>c.
         if c = 0 then new_class ''Person'' [] (Some [HasMany (ModuleName ''Pet'') no_options])
         else if c = 1 then new_class ''Pet'' [] (Some [BelongsTo (ClassRef 0) no_options])
         else if c = 2 then new_class ''Employee'' [0] (Some [HasOne (ClassRef 1) no_options])
         else (new_class ''Audit'' [] None)\<lparr>timestamps_own := Some False\<rparr>),
      heap = (\<lambda>ob. Map.empty), next_oid = 0, clock_reads = 0, hook_runs = (\<lambda>c. 0)\<rparr>"

text \<open>The same classes while their hooks run: each has its fresh, empty mapping object.\<close>

definition declaring_world :: world where
  "declaring_world =
     sample_world\<lparr>classes := (\<lambda>c.
                     if c < 4 then (classes sample_world c)\<lparr>relationMappings_own := Some (Some c)\<rparr>
                     else classes sample_world c),
                  next_oid := 4\<rparr>"

text \<open>
  The options \<^verbatim>\<open>{name: 'animals', through: {table: 'links'}}\<close>,
  \<^verbatim>\<open>{through: {model: Audit}}\<close> and \<^verbatim>\<open>{through: {model: Audit, table: 'links'}}\<close>.
\<close>

definition links_options :: options where
  "links_options = no_options\<lparr>o_name := Some ''animals'',
                      o_through := Some (no_through\<lparr>th_table := Some ''links''\<rparr>)\<rparr>"

definition audit_options :: options where
  "audit_options = no_options\<lparr>o_through := Some (no_through\<lparr>th_model := Some (ClassRef 3)\<rparr>)\<rparr>"

definition audit_links_options :: options where
  "audit_links_options =
     no_options\<lparr>o_through := Some (no_through\<lparr>th_model := Some (ClassRef 3),
                                                th_table := Some ''links''\<rparr>)\<rparr>"

text \<open>The sample program after \<^verbatim>\<open>Person.relationMappings\<close> has been read once.\<close>

definition resolved_world :: world where
  "resolved_world = snd (get_relationMappings sample_env sample_world 0)"

section \<open>Facts about the prototype chain and the table-name getter\<close>

lemma first_own_None: "(\<forall>d\<in>set cs. own d = None) \<Longrightarrow> first_own own cs = None"
  by (induction cs) auto

lemma lookup_eqI:
  assumes "\<And>d. field (classes w' d) = field (classes w d)"
    and "supers (classes w' c) = supers (classes w c)"
  shows "lookup field w' c = lookup field w c"
  using assms by (simp add: lookup_def)

lemma classes_get_tableName:
  "classes (snd (get_tableName w c)) =
     (classes w)(c := (classes w c)\<lparr>tableName_own := Some (fst (get_tableName w c))\<rparr>)"
  by (simp add: get_tableName_def Let_def)

lemma get_tableName_frame [simp]:
  "name (classes (snd (get_tableName w c)) d) = name (classes w d)"
  "supers (classes (snd (get_tableName w c)) d) = supers (classes w d)"
  "idColumn_own (classes (snd (get_tableName w c)) d) = idColumn_own (classes w d)"
  "relationMappings_own (classes (snd (get_tableName w c)) d) = relationMappings_own (classes w d)"
  "relations_own (classes (snd (get_tableName w c)) d) = relations_own (classes w d)"
  "heap (snd (get_tableName w c)) = heap w"
  "next_oid (snd (get_tableName w c)) = next_oid w"
  "hook_runs (snd (get_tableName w c)) = hook_runs w"
  by (simp_all add: get_tableName_def Let_def)

lemma lookup_get_tableName [simp]:
  "lookup relationMappings_own (snd (get_tableName w c)) d = lookup relationMappings_own w d"
  "lookup idColumn_own (snd (get_tableName w c)) d = lookup idColumn_own w d"
  "lookup relations_own (snd (get_tableName w c)) d = lookup relations_own w d"
  by (rule lookup_eqI; simp)+

lemma or_none [simp]: "or_str None d = d" "or_default None f w = f w"
  by (simp_all add: or_str_def or_default_def)

lemma store_mapping_ok:
  "lookup relationMappings_own w c = Some (Some ob) \<Longrightarrow>
   store_mapping w c nm m = (Inr (), w\<lparr>heap := (heap w)(ob := (heap w ob)(nm \<mapsto> m))\<rparr>)"
  by (simp add: store_mapping_def)

lemma fresh_tableName:
  assumes "\<forall>d. tableName_own (classes w d) = None"
  shows "fst (get_tableName w c) = JStr (name (classes w c))"
  using assms by (simp add: get_tableName_def lookup_def first_own_None Let_def)

lemma fresh_tableName_second:
  assumes "\<forall>d. tableName_own (classes w d) = None" and "c \<noteq> c'" and "c' \<notin> set (supers (classes w c))"
  shows "fst (get_tableName (snd (get_tableName w c')) c) = JStr (name (classes w c))"
proof -
  have "lookup tableName_own (snd (get_tableName w c')) c = None"
    unfolding lookup_def
    by (rule first_own_None) (use assms in \<open>auto simp: classes_get_tableName\<close>)
  then show ?thesis by (simp add: get_tableName_def Let_def)
qed

lemma or_default_fst: "fst (or_default ov f w) = or_str ov (fst (f w))"
  by (simp add: or_default_def or_str_def split: option.splits)

lemma or_default_snd: "snd (or_default ov f w) = w \<or> snd (or_default ov f w) = snd (f w)"
  by (simp add: or_default_def split: option.splits)

lemma or_empty [simp]: "or_str (Some []) d = d" "or_default (Some []) f w = f w"
  by (simp_all add: or_str_def or_default_def)

lemma frame_refl [simp]: "decl_frame ob w w"
  by (simp add: decl_frame_def)

lemma frame_trans: "decl_frame ob w w1 \<Longrightarrow> decl_frame ob w1 w2 \<Longrightarrow> decl_frame ob w w2"
  by (simp add: decl_frame_def)

lemma frame_slot: "decl_frame ob w w' \<Longrightarrow> lookup relationMappings_own w' c = lookup relationMappings_own w c"
  by (rule lookup_eqI) (simp_all add: decl_frame_def)

lemma frame_name: "decl_frame ob w w' \<Longrightarrow> name (classes w' d) = name (classes w d)"
  by (simp add: decl_frame_def)

lemma frame_get_tableName: "decl_frame ob w (snd (get_tableName w c))"
  by (simp add: decl_frame_def get_tableName_def Let_def)

lemma frame_table_dot: "decl_frame ob w (snd (table_dot c col w))"
  using frame_get_tableName [of ob w c] by (simp add: table_dot_def split_beta)

lemma frame_or_default: "(\<And>w. decl_frame ob w (snd (f w))) \<Longrightarrow> decl_frame ob w (snd (or_default ov f w))"
  by (simp add: or_default_def split: option.splits)

lemma frame_store:
  "lookup relationMappings_own w c = Some (Some ob) \<Longrightarrow> decl_frame ob w (snd (store_mapping w c nm m))"
  by (simp add: store_mapping_def decl_frame_def)

lemma frame_then_store:
  assumes "decl_frame ob w w2" and "lookup relationMappings_own w c = Some (Some ob)"
  shows "decl_frame ob w (snd (store_mapping w2 c nm m))"
    and "fst (store_mapping w2 c nm m) = Inr ()"
    and "heap (snd (store_mapping w2 c nm m)) ob nm = Some m"
proof -
  have slot2: "lookup relationMappings_own w2 c = Some (Some ob)"
    using assms frame_slot by simp
  show "decl_frame ob w (snd (store_mapping w2 c nm m))"
    using frame_trans [OF assms(1) frame_store [OF slot2]] .
  show "fst (store_mapping w2 c nm m) = Inr ()" "heap (snd (store_mapping w2 c nm m)) ob nm = Some m"
    by (simp_all add: store_mapping_ok [OF slot2])
qed

lemma frame_two_defaults:
  "decl_frame ob w (snd (or_default ov2 (table_dot c2 col2) (snd (or_default ov1 (table_dot c1 col1) w))))"
  by (rule frame_trans [OF frame_or_default frame_or_default]) (rule frame_table_dot)+

lemma belongsTo_frame:
  assumes "lookup relationMappings_own w c = Some (Some ob)"
  shows "decl_frame ob w (snd (belongsTo E w c m opts))"
  using frame_then_store(1) [OF frame_two_defaults assms]
  by (simp add: belongsTo_def split_beta Let_def split: sum.split)

lemma belongsTo_ok:
  assumes "lookup relationMappings_own w c = Some (Some ob)" and "getModelClass E m = Inr mc"
  shows "fst (belongsTo E w c m opts) = Inr () \<and>
         heap (snd (belongsTo E w c m opts)) ob (or_str (o_name opts) (camelCase E (name (classes w mc)))) \<noteq> None"
  using frame_then_store(2,3) [OF frame_two_defaults assms(1)] assms(2)
  by (simp add: belongsTo_def split_beta Let_def)

lemma hasOne_frame:
  assumes "lookup relationMappings_own w c = Some (Some ob)"
  shows "decl_frame ob w (snd (hasOne E w c m opts))"
  using frame_then_store(1) [OF frame_two_defaults assms]
  by (simp add: hasOne_def split_beta Let_def split: sum.split)

lemma hasOne_ok:
  assumes "lookup relationMappings_own w c = Some (Some ob)" and "getModelClass E m = Inr mc"
  shows "fst (hasOne E w c m opts) = Inr () \<and>
         heap (snd (hasOne E w c m opts)) ob (or_str (o_name opts) (camelCase E (name (classes w mc)))) \<noteq> None"
  using frame_then_store(2,3) [OF frame_two_defaults assms(1)] assms(2)
  by (simp add: hasOne_def split_beta Let_def)

lemma hasMany_frame:
  assumes "lookup relationMappings_own w c = Some (Some ob)"
  shows "decl_frame ob w (snd (hasMany E w c m opts))"
  using frame_then_store(1) [OF frame_two_defaults assms]
  by (simp add: hasMany_def split_beta Let_def split: sum.split)

lemma hasMany_ok:
  assumes "lookup relationMappings_own w c = Some (Some ob)" and "getModelClass E m = Inr mc"
  shows "fst (hasMany E w c m opts) = Inr () \<and>
         heap (snd (hasMany E w c m opts)) ob
           (or_str (o_name opts) (plural E (camelCase E (name (classes w mc))))) \<noteq> None"
  using frame_then_store(2,3) [OF frame_two_defaults assms(1)] assms(2)
  by (simp add: hasMany_def split_beta Let_def)

lemma frame_through_default:
  "decl_frame ob w
     (snd (or_default ov (\<lambda>w. let (t, w') = get_tableName w tc in (ToString t, w')) w))"
  by (rule frame_or_default) (simp add: split_beta frame_get_tableName)

lemma hasManyThrough_frame:
  assumes slot: "lookup relationMappings_own w c = Some (Some ob)"
  shows "decl_frame ob w (snd (hasManyThrough E w c m opts))"
proof (cases "getModelClass E m")
  case (Inl e)
  then show ?thesis by (simp add: hasManyThrough_def)
next
  case target: (Inr mc)
  show ?thesis
  proof (cases "truthy_model (th_model (through_of opts))")
    case None
    then show ?thesis
      using target frame_then_store(1) [OF frame_two_defaults slot]
      by (simp add: hasManyThrough_def split_beta Let_def)
  next
    case (Some tm)
    show ?thesis
    proof (cases "getModelClass E tm")
      case (Inl e)
      then show ?thesis
        using target Some frame_two_defaults
        by (simp add: hasManyThrough_def split_beta Let_def)
    next
      case (Inr tc)
      then show ?thesis
        using target Some
          frame_then_store(1) [OF frame_trans [OF frame_two_defaults frame_through_default] slot]
        by (simp add: hasManyThrough_def split_beta Let_def)
    qed
  qed
qed

lemma hasManyThrough_ok:
  assumes slot: "lookup relationMappings_own w c = Some (Some ob)"
    and target: "getModelClass E m = Inr mc"
    and through: "case truthy_model (th_model (through_of opts)) of
           None \<Rightarrow> True | Some tm \<Rightarrow> \<not> isl (getModelClass E tm)"
  shows "fst (hasManyThrough E w c m opts) = Inr () \<and>
         heap (snd (hasManyThrough E w c m opts)) ob
           (or_str (o_name opts) (plural E (camelCase E (name (classes w mc))))) \<noteq> None"
proof (cases "truthy_model (th_model (through_of opts))")
  case None
  then show ?thesis
    using target frame_then_store(2,3) [OF frame_two_defaults slot]
    by (simp add: hasManyThrough_def split_beta Let_def)
next
  case (Some tm)
  then obtain tc where "getModelClass E tm = Inr tc"
    using through by (cases "getModelClass E tm") simp_all
  then show ?thesis
    using target Some
      frame_then_store(2,3) [OF frame_trans [OF frame_two_defaults frame_through_default] slot]
    by (simp add: hasManyThrough_def split_beta Let_def)
qed

lemma run_decl_frame:
  assumes "lookup relationMappings_own w c = Some (Some ob)"
  shows "decl_frame ob w (snd (run_decl E w c d))"
  using assms
  by (cases d) (simp_all add: belongsTo_frame hasOne_frame hasMany_frame hasManyThrough_frame)

lemma run_decl_ok:
  assumes slot: "lookup relationMappings_own w c = Some (Some ob)" and res: "resolvable E d"
  shows "fst (run_decl E w c d) = Inr () \<and>
         (\<exists>nm. declared_name E w d = Some nm \<and> heap (snd (run_decl E w c d)) ob nm \<noteq> None)"
proof (cases d)
  case (BelongsTo m opts)
  then obtain mc where "getModelClass E m = Inr mc" using res by (auto simp: isl_def) (metis sumE)
  then show ?thesis using belongsTo_ok [OF slot] BelongsTo by simp
next
  case (HasOne m opts)
  then obtain mc where "getModelClass E m = Inr mc" using res by (auto simp: isl_def) (metis sumE)
  then show ?thesis using hasOne_ok [OF slot] HasOne by simp
next
  case (HasMany m opts)
  then obtain mc where "getModelClass E m = Inr mc" using res by (auto simp: isl_def) (metis sumE)
  then show ?thesis using hasMany_ok [OF slot] HasMany by simp
next
  case (HasManyThrough m opts)
  then obtain mc where "getModelClass E m = Inr mc" using res by (auto simp: isl_def) (metis sumE)
  then show ?thesis using hasManyThrough_ok [OF slot] HasManyThrough res by simp
qed

lemma declared_name_frame: "decl_frame ob w w' \<Longrightarrow> declared_name E w' d = declared_name E w d"
  by (cases d) (simp_all add: frame_name cong: sum.case_cong)

lemma run_relations_frame:
  "lookup relationMappings_own w c = Some (Some ob) \<Longrightarrow> decl_frame ob w (snd (run_relations E w c ds))"
proof (induction ds arbitrary: w)
  case Nil
  then show ?case by simp
next
  case (Cons d ds)
  let ?w1 = "snd (run_decl E w c d)"
  have f1: "decl_frame ob w ?w1" using run_decl_frame [OF Cons.prems] .
  have slot1: "lookup relationMappings_own ?w1 c = Some (Some ob)"
    using frame_slot [OF f1] Cons.prems by simp
  have f2: "decl_frame ob ?w1 (snd (run_relations E ?w1 c ds))"
    using Cons.IH [OF slot1] .
  show ?case
  proof (cases "fst (run_decl E w c d)")
    case (Inl e)
    then show ?thesis using f1 by (simp add: split_beta split: sum.split)
  next
    case (Inr u)
    then show ?thesis using frame_trans [OF f1 f2] by (simp add: split_beta split: sum.split)
  qed
qed

lemma run_relations_ok:
  "lookup relationMappings_own w c = Some (Some ob) \<Longrightarrow> \<forall>d\<in>set ds. resolvable E d \<Longrightarrow>
   fst (run_relations E w c ds) = Inr () \<and>
   (\<forall>d\<in>set ds. \<exists>nm. declared_name E w d = Some nm \<and>
        heap (snd (run_relations E w c ds)) ob nm \<noteq> None)"
proof (induction ds arbitrary: w)
  case Nil
  then show ?case by simp
next
  case (Cons d ds)
  let ?w1 = "snd (run_decl E w c d)"
  let ?w2 = "snd (run_relations E ?w1 c ds)"
  have f1: "decl_frame ob w ?w1" using run_decl_frame [OF Cons.prems(1)] .
  have slot1: "lookup relationMappings_own ?w1 c = Some (Some ob)"
    using frame_slot [OF f1] Cons.prems(1) by simp
  have f2: "decl_frame ob ?w1 ?w2" using run_relations_frame [OF slot1] .
  from run_decl_ok [OF Cons.prems(1), of E d] Cons.prems(2)
  obtain nm where ok1: "fst (run_decl E w c d) = Inr ()"
    and nm: "declared_name E w d = Some nm" "heap ?w1 ob nm \<noteq> None"
    by auto
  have rest: "fst (run_relations E ?w1 c ds) = Inr ()"
    "\<forall>d\<in>set ds. \<exists>nm. declared_name E ?w1 d = Some nm \<and> heap ?w2 ob nm \<noteq> None"
    using Cons.IH [OF slot1] Cons.prems(2) by simp_all
  have step: "run_relations E w c (d # ds) = run_relations E ?w1 c ds"
    using ok1 by (simp add: split_beta split: sum.split prod.split)
  have keep: "heap ?w2 ob nm \<noteq> None"
    using f2 nm(2) by (simp add: decl_frame_def)
  show ?case
    unfolding step using rest nm(1) keep by (simp add: declared_name_frame [OF f1])
qed

lemma init_relationMappings_own [simp]:
  "relationMappings_own (classes (init_relationMappings w c) d) =
     (if d = c then Some (Some (next_oid w)) else relationMappings_own (classes w d))"
  "supers (classes (init_relationMappings w c) d) = supers (classes w d)"
  "name (classes (init_relationMappings w c) d) = name (classes w d)"
  "next_oid (init_relationMappings w c) = Suc (next_oid w)"
  "relations_own (classes (init_relationMappings w c) d) = relations_own (classes w d)"
  "hook_runs (init_relationMappings w c) = hook_runs w"
  "heap (init_relationMappings w c) = (heap w)(next_oid w := Map.empty)"
  by (simp_all add: init_relationMappings_def)

lemma lookup_init [simp]:
  "lookup relationMappings_own (init_relationMappings w c) c = Some (Some (next_oid w))"
  "lookup relations_own (init_relationMappings w c) d = lookup relations_own w d"
   apply (simp add: lookup_def)
  apply (rule lookup_eqI; simp)
  done

lemma lookup_hook_runs [simp]: "lookup field (w\<lparr>hook_runs := h\<rparr>) c = lookup field w c"
  by (simp add: lookup_def)

lemma get_relationMappings_empty:
  assumes empty: "\<forall>ob. lookup relationMappings_own w c \<noteq> Some (Some ob)"
  shows "get_relationMappings E w c =
     (case lookup relations_own w c of
        None \<Rightarrow> (Inl TypeError, init_relationMappings w c)
      | Some ds \<Rightarrow>
          (case fst (run_relations E (entered w c) c ds) of
             Inl e \<Rightarrow> (Inl e, snd (run_relations E (entered w c) c ds))
           | Inr u \<Rightarrow> (Inr (Some (next_oid w)), snd (run_relations E (entered w c) c ds))))"
proof (cases "lookup relations_own w c")
  case None
  then show ?thesis
    using empty by (simp add: get_relationMappings_def split: option.split)
next
  case (Some ds)
  have slot: "lookup relationMappings_own (entered w c) c = Some (Some (next_oid w))"
    by (simp add: entered_def)
  have "lookup relationMappings_own (snd (run_relations E (entered w c) c ds)) c = Some (Some (next_oid w))"
    using frame_slot [OF run_relations_frame [OF slot]] slot by simp
  then show ?thesis
    using empty Some
    by (simp add: get_relationMappings_def entered_def [symmetric] split_beta
        split: option.split sum.split)
qed

lemma entered_frame:
  "next_oid (entered w c) = Suc (next_oid w)"
  "hook_runs (entered w c) = (hook_runs w)(c := Suc (hook_runs w c))"
  "relationMappings_own (classes (entered w c) d) =
     (if d = c then Some (Some (next_oid w)) else relationMappings_own (classes w d))"
  "heap (entered w c) = (heap w)(next_oid w := Map.empty)"
  "lookup relationMappings_own (entered w c) c = Some (Some (next_oid w))"
  by (simp_all add: entered_def)

lemma hook_run_frame:
  assumes "w' = snd (run_relations E (entered w c) c ds)"
  shows "relationMappings_own (classes w' d) =
           (if d = c then Some (Some (next_oid w)) else relationMappings_own (classes w d))"
    and "hook_runs w' = (hook_runs w)(c := Suc (hook_runs w c))"
    and "ob \<noteq> next_oid w \<Longrightarrow> heap w' ob = heap w ob"
    and "lookup relationMappings_own w' c = Some (Some (next_oid w))"
proof -
  have f: "decl_frame (next_oid w) (entered w c) w'"
    unfolding assms by (rule run_relations_frame) (rule entered_frame(5))
  show "relationMappings_own (classes w' d) =
           (if d = c then Some (Some (next_oid w)) else relationMappings_own (classes w d))"
    using f entered_frame(3) [of w c d] by (simp add: decl_frame_def)
  show "hook_runs w' = (hook_runs w)(c := Suc (hook_runs w c))"
    using f by (simp add: decl_frame_def entered_frame(2))
  show "heap w' ob = heap w ob" if "ob \<noteq> next_oid w"
    using f that by (simp add: decl_frame_def entered_frame(4))
  show "lookup relationMappings_own w' c = Some (Some (next_oid w))"
    using frame_slot [OF f] by (simp add: entered_frame(5))
qed

lemma or_str_given: "or_str ov d = (case given ov of Some s \<Rightarrow> s | None \<Rightarrow> d)"
  by (simp add: or_str_def given_def split: option.split)

lemma or_default_given: "or_default ov f w = (case given ov of Some s \<Rightarrow> (s, w) | None \<Rightarrow> f w)"
  by (simp add: or_default_def given_def split: option.split)

lemma through_of_given:
  "given (th_table (through_of opts)) = through_override th_table opts"
  "given (th_from (through_of opts)) = through_override th_from opts"
  "given (th_to (through_of opts)) = through_override th_to opts"
  by (simp_all add: through_of_def through_override_def no_through_def given_def split: option.split)

lemma through_of_model:
  "truthy_model (th_model (through_of opts)) = explicit_through_model opts"
  by (simp add: through_of_def truthy_model_def explicit_through_model_def no_through_def
      split: option.split model_ref.split)

lemma timestamps_clock_reads [simp]: "timestamps (w\<lparr>clock_reads := n\<rparr>) c = timestamps w c"
  by (simp add: timestamps_def lookup_def)

lemma beforeInsert_skipped:
  "dontTouch ctx \<or> \<not> timestamps w (constructor this) \<Longrightarrow> beforeInsert E w this ctx = (this, w)"
  by (auto simp: beforeInsert_def)

lemma beforeUpdate_disabled:
  "\<not> timestamps w (constructor this) \<Longrightarrow> beforeUpdate E w this opt ctx = (this, w)"
  by (simp add: beforeUpdate_def)

section \<open>The relation-mapping cache: isolation and memoization\<close>

text \<open>
  C1, as amended. Isolation holds for a class whose read of \<^verbatim>\<open>_relationMappings\<close> finds no
  mapping object, neither in its own property nor in one inherited along its prototype
  chain: a request for its relation graph gives it a fresh mapping object in an own
  property, returns that object when it returns and so never the allocated object of
  another class, runs the class's hook once when the chain declares one, and leaves the
  own property and the hook count of every other class and every other mapping object
  unchanged. And a declaration on a class whose read finds the
  object \<open>ob\<close> stores into \<open>ob\<close> only: every other object and every class's own property
  stay as they were.
\<close>

theorem cache_isolation:
  "((\<forall>ob. lookup relationMappings_own w c \<noteq> Some (Some ob)) \<longrightarrow>
      relationMappings_own (classes (snd (get_relationMappings E w c)) c) = Some (Some (next_oid w)) \<and>
      (\<forall>r. fst (get_relationMappings E w c) = Inr r \<longrightarrow> r = Some (next_oid w)) \<and>
      (\<forall>d ob. lookup relationMappings_own w d = Some (Some ob) \<and> ob < next_oid w \<longrightarrow>
         fst (get_relationMappings E w c) \<noteq> Inr (Some ob)) \<and>
      (lookup relations_own w c \<noteq> None \<longrightarrow>
         hook_runs (snd (get_relationMappings E w c)) c = Suc (hook_runs w c)) \<and>
      (\<forall>d. d \<noteq> c \<longrightarrow>
         relationMappings_own (classes (snd (get_relationMappings E w c)) d)
           = relationMappings_own (classes w d) \<and>
         hook_runs (snd (get_relationMappings E w c)) d = hook_runs w d) \<and>
      (\<forall>ob. ob \<noteq> next_oid w \<longrightarrow> heap (snd (get_relationMappings E w c)) ob = heap w ob)) \<and>
   (\<forall>ob. lookup relationMappings_own w c = Some (Some ob) \<longrightarrow>
      (\<forall>d. relationMappings_own (classes (snd (run_decl E w c dc)) d)
           = relationMappings_own (classes w d)) \<and>
      (\<forall>ob'. ob' \<noteq> ob \<longrightarrow> heap (snd (run_decl E w c dc)) ob' = heap w ob'))"
proof (intro conjI impI allI)
  fix ob d ob'
  assume slot: "lookup relationMappings_own w c = Some (Some ob)"
  have f: "decl_frame ob w (snd (run_decl E w c dc))"
    using run_decl_frame [OF slot] .
  show "relationMappings_own (classes (snd (run_decl E w c dc)) d) = relationMappings_own (classes w d)"
    using f by (simp add: decl_frame_def)
  show "heap (snd (run_decl E w c dc)) ob' = heap w ob'" if "ob' \<noteq> ob"
    using f that by (simp add: decl_frame_def)
next
  assume empty: "\<forall>ob. lookup relationMappings_own w c \<noteq> Some (Some ob)"
  note g = get_relationMappings_empty [OF empty, of E]
  show "relationMappings_own (classes (snd (get_relationMappings E w c)) c) = Some (Some (next_oid w))"
    by (simp add: g hook_run_frame(1) [OF refl] split: option.split sum.split)
  show r: "r = Some (next_oid w)" if "fst (get_relationMappings E w c) = Inr r" for r
    using that by (simp add: g split: option.splits sum.splits)
  show "fst (get_relationMappings E w c) \<noteq> Inr (Some ob)"
    if "lookup relationMappings_own w d = Some (Some ob) \<and> ob < next_oid w" for d ob
    using that r [of "Some ob"] by auto
  show "hook_runs (snd (get_relationMappings E w c)) c = Suc (hook_runs w c)"
    if "lookup relations_own w c \<noteq> None"
    using that by (auto simp: g hook_run_frame(2) [OF refl] split: sum.split)
  show "relationMappings_own (classes (snd (get_relationMappings E w c)) d)
          = relationMappings_own (classes w d)" if "d \<noteq> c" for d
    using that by (simp add: g hook_run_frame(1) [OF refl] split: option.split sum.split)
  show "hook_runs (snd (get_relationMappings E w c)) d = hook_runs w d" if "d \<noteq> c" for d
    using that by (simp add: g hook_run_frame(2) [OF refl] split: option.split sum.split)
  show "heap (snd (get_relationMappings E w c)) ob = heap w ob" if "ob \<noteq> next_oid w" for ob
    using that by (simp add: g hook_run_frame(3) [OF refl] split: option.split sum.split)
qed

theorem cache_isolation_witness:
  "(\<forall>ob. lookup relationMappings_own sample_world 2 \<noteq> Some (Some ob)) \<and>
   lookup relations_own sample_world 2 \<noteq> None \<and>
   relationMappings_own (classes (snd (get_relationMappings sample_env sample_world 2)) 2)
     = Some (Some 0) \<and>
   hook_runs (snd (get_relationMappings sample_env sample_world 2)) 2 = 1 \<and>
   relationMappings_own (classes (snd (get_relationMappings sample_env sample_world 2)) 0) = None \<and>
   hook_runs (snd (get_relationMappings sample_env sample_world 2)) 0 = 0 \<and>
   lookup relationMappings_own declaring_world 1 = Some (Some 1) \<and>
   heap (snd (run_decl sample_env declaring_world 1 (BelongsTo (ClassRef 0) no_options))) 0
     = heap declaring_world 0"
proof -
  have empty: "\<forall>ob. lookup relationMappings_own sample_world 2 \<noteq> Some (Some ob)"
    by (simp add: sample_world_def new_class_def lookup_def)
  have hook: "lookup relations_own sample_world 2 \<noteq> None"
    by (simp add: sample_world_def new_class_def lookup_def)
  have init: "next_oid sample_world = 0" "hook_runs sample_world 2 = 0" "hook_runs sample_world 0 = 0"
    "relationMappings_own (classes sample_world 0) = None"
    by (simp_all add: sample_world_def new_class_def)
  have slot: "lookup relationMappings_own declaring_world 1 = Some (Some 1)"
    by (simp add: declaring_world_def sample_world_def new_class_def lookup_def)
  note a = cache_isolation [of sample_world 2 sample_env "BelongsTo (ClassRef 0) no_options"]
  note b = cache_isolation [of declaring_world 1 sample_env "BelongsTo (ClassRef 0) no_options"]
  have a1: "relationMappings_own (classes (snd (get_relationMappings sample_env sample_world 2)) 2)
              = Some (Some 0)"
    "hook_runs (snd (get_relationMappings sample_env sample_world 2)) 2 = 1"
    "relationMappings_own (classes (snd (get_relationMappings sample_env sample_world 2)) 0) = None"
    "hook_runs (snd (get_relationMappings sample_env sample_world 2)) 0 = 0"
    using a empty hook init by simp_all
  have b1: "heap (snd (run_decl sample_env declaring_world 1 (BelongsTo (ClassRef 0) no_options))) 0
              = heap declaring_world 0"
    using b slot by simp
  show ?thesis using empty hook slot a1 b1 by blast
qed

theorem cache_isolation_counterexample:
  "fst (get_relationMappings sample_env sample_world 0) = Inr (Some 0) \<and>
   relations_own (classes resolved_world 2) = Some [HasOne (ClassRef 1) no_options] \<and>
   relationMappings_own (classes resolved_world 2) = None \<and>
   fst (get_relationMappings sample_env resolved_world 2) = Inr (Some 0) \<and>
   hook_runs (snd (get_relationMappings sample_env resolved_world 2)) 2 = 0 \<and>
   relationMappings_own (classes (snd (get_relationMappings sample_env resolved_world 2)) 2) = None"
  by (simp add: resolved_world_def get_relationMappings_def init_relationMappings_def
      sample_world_def sample_env_def new_class_def no_options_def lookup_def
      hasMany_def getModelClass_def startsWith_def or_str_def or_default_def table_dot_def
      get_tableName_def store_mapping_def idColumn_def Let_def)

text \<open>
  C2, as amended. For a class whose read of \<^verbatim>\<open>_relationMappings\<close> finds no mapping object
  (own or inherited), whose chain declares the \<^verbatim>\<open>$relations\<close> hook and whose declared
  targets can be loaded, the first request returns a fresh object, a second request returns
  the same object and changes nothing, the hook has run exactly once after both, and every
  relation the hook declares is a key of the returned object.
\<close>

theorem memoized_once:
  assumes empty: "\<forall>ob. lookup relationMappings_own w c \<noteq> Some (Some ob)"
    and hook: "lookup relations_own w c = Some ds"
    and res: "\<forall>d\<in>set ds. resolvable E d"
  shows "fst (get_relationMappings E w c) = Inr (Some (next_oid w)) \<and>
         get_relationMappings E (snd (get_relationMappings E w c)) c
           = (Inr (Some (next_oid w)), snd (get_relationMappings E w c)) \<and>
         hook_runs (snd (get_relationMappings E w c)) c = Suc (hook_runs w c) \<and>
         hook_runs (snd (get_relationMappings E (snd (get_relationMappings E w c)) c)) c
           = Suc (hook_runs w c) \<and>
         (\<forall>d\<in>set ds. \<exists>nm m. declared_name E w d = Some nm \<and>
              heap (snd (get_relationMappings E w c)) (next_oid w) nm = Some m)"
proof -
  let ?w2 = "snd (run_relations E (entered w c) c ds)"
  have slot: "lookup relationMappings_own (entered w c) c = Some (Some (next_oid w))"
    by (rule entered_frame(5))
  have names: "declared_name E (entered w c) d = declared_name E w d" for d
    by (cases d) (simp_all add: entered_def cong: sum.case_cong)
  from run_relations_ok [OF slot, of ds E] res
  have ok: "fst (run_relations E (entered w c) c ds) = Inr ()"
    and keys: "\<forall>d\<in>set ds. \<exists>nm. declared_name E w d = Some nm \<and> heap ?w2 (next_oid w) nm \<noteq> None"
    by (simp_all add: names)
  have first: "get_relationMappings E w c = (Inr (Some (next_oid w)), ?w2)"
    using get_relationMappings_empty [OF empty, of E] hook ok by simp
  have second: "get_relationMappings E ?w2 c = (Inr (Some (next_oid w)), ?w2)"
    using hook_run_frame(4) [OF refl, of E w c ds] by (simp add: get_relationMappings_def)
  have runs: "hook_runs ?w2 c = Suc (hook_runs w c)"
    by (simp add: hook_run_frame(2) [OF refl])
  show ?thesis
    using second runs keys by (auto simp: first)
qed

theorem memoized_once_witness:
  "(\<forall>ob. lookup relationMappings_own sample_world 1 \<noteq> Some (Some ob)) \<and>
   lookup relations_own sample_world 1 = Some [BelongsTo (ClassRef 0) no_options] \<and>
   resolvable sample_env (BelongsTo (ClassRef 0) no_options) \<and>
   fst (get_relationMappings sample_env sample_world 1) = Inr (Some 0) \<and>
   fst (get_relationMappings sample_env (snd (get_relationMappings sample_env sample_world 1)) 1)
     = Inr (Some 0) \<and>
   hook_runs (snd (get_relationMappings sample_env sample_world 1)) 1 = 1 \<and>
   (\<exists>m. heap (snd (get_relationMappings sample_env sample_world 1)) 0 ''person'' = Some m)"
proof -
  have empty: "\<forall>ob. lookup relationMappings_own sample_world 1 \<noteq> Some (Some ob)"
    by (simp add: sample_world_def new_class_def lookup_def)
  have hook: "lookup relations_own sample_world 1 = Some [BelongsTo (ClassRef 0) no_options]"
    by (simp add: sample_world_def new_class_def lookup_def)
  have res: "resolvable sample_env (BelongsTo (ClassRef 0) no_options)"
    by (simp add: getModelClass_def)
  then have res': "\<forall>d\<in>set [BelongsTo (ClassRef 0) no_options]. resolvable sample_env d"
    by simp
  have init: "next_oid sample_world = 0" "hook_runs sample_world 1 = 0"
    by (simp_all add: sample_world_def new_class_def)
  have nm: "declared_name sample_env sample_world (BelongsTo (ClassRef 0) no_options) = Some ''person''"
    by (simp add: getModelClass_def no_options_def sample_world_def sample_env_def new_class_def)
  note t = memoized_once [OF empty hook res']
  have t1: "fst (get_relationMappings sample_env sample_world 1) = Inr (Some 0)"
    "fst (get_relationMappings sample_env (snd (get_relationMappings sample_env sample_world 1)) 1)
       = Inr (Some 0)"
    "hook_runs (snd (get_relationMappings sample_env sample_world 1)) 1 = 1"
    "\<exists>m. heap (snd (get_relationMappings sample_env sample_world 1)) 0 ''person'' = Some m"
    using t init nm by simp_all
  show ?thesis using empty hook res t1 by blast
qed

theorem memoized_once_counterexample:
  "lookup relations_own resolved_world 2 = Some [HasOne (ClassRef 1) no_options] \<and>
   relationMappings_own (classes resolved_world 2) = None \<and>
   hook_runs resolved_world 2 = 0 \<and>
   hook_runs (snd (get_relationMappings sample_env
                (snd (get_relationMappings sample_env resolved_world 2)) 2)) 2 = 0"
  by (simp add: resolved_world_def get_relationMappings_def init_relationMappings_def
      sample_world_def sample_env_def new_class_def no_options_def lookup_def
      hasMany_def getModelClass_def startsWith_def or_str_def or_default_def table_dot_def
      get_tableName_def store_mapping_def idColumn_def Let_def)

section \<open>Convention defaults of the declarations\<close>

text \<open>
  C3. A \<^verbatim>\<open>belongsTo\<close> declaration without overrides, made by owner \<open>Ow\<close> on a target that
  resolves to \<open>Tg\<close>, succeeds once the owner has a mapping object, and stores under the
  camel-cased target name a mapping whose \<open>from\<close> column is the target's table name, a dot,
  the camel-cased owner name and the owner's id column with its first letter in upper
  case, and whose \<open>to\<close> column is the owner's table name, a dot and the owner's id column.
  The table names are what the \<^verbatim>\<open>tableName\<close> getter returns, read for the target first.
  In particular, for owner Pet and target Person with id column id, no table name assigned
  or cached, and lodash giving pet and Id, the columns are Person.petId and Pet.id.
\<close>

theorem belongsTo_defaults:
  assumes target: "getModelClass E model = Inr Tg"
    and slot: "lookup relationMappings_own w Ow = Some (Some ob)"
  shows "fst (belongsTo E w Ow model no_options) = Inr () \<and>
         heap (snd (belongsTo E w Ow model no_options)) ob (camelCase E (name (classes w Tg))) =
           Some \<lparr>relation = BelongsToOneRelation, modelClass = Tg, m_filter = None,
                 join = \<lparr>j_from = ToString (fst (get_tableName w Tg)) @ ''.'' @
                                    camelCase E (name (classes w Ow)) @ upperFirst E (idColumn w Ow),
                         j_to = ToString (fst (get_tableName (snd (get_tableName w Tg)) Ow)) @ ''.'' @
                                    idColumn w Ow,
                         j_through = None\<rparr>\<rparr> \<and>
         (name (classes w Ow) = ''Pet'' \<and> name (classes w Tg) = ''Person'' \<and> idColumn w Ow = ''id'' \<and>
          camelCase E ''Pet'' = ''pet'' \<and> upperFirst E ''id'' = ''Id'' \<and>
          (\<forall>d. tableName_own (classes w d) = None) \<and> Tg \<notin> set (supers (classes w Ow)) \<longrightarrow>
            (\<exists>m. heap (snd (belongsTo E w Ow model no_options)) ob (camelCase E ''Person'') = Some m \<and>
                 j_from (join m) = ''Person.petId'' \<and> j_to (join m) = ''Pet.id''))"
proof -
  let ?w1 = "snd (get_tableName w Tg)"
  let ?w2 = "snd (get_tableName ?w1 Ow)"
  let ?m = "\<lparr>relation = BelongsToOneRelation, modelClass = Tg, m_filter = None,
             join = \<lparr>j_from = ToString (fst (get_tableName w Tg)) @ ''.'' @
                                camelCase E (name (classes w Ow)) @ upperFirst E (idColumn w Ow),
                     j_to = ToString (fst (get_tableName ?w1 Ow)) @ ''.'' @ idColumn w Ow,
                     j_through = None\<rparr>\<rparr>"
  have slot2: "lookup relationMappings_own ?w2 Ow = Some (Some ob)"
    using slot by simp
  have run: "belongsTo E w Ow model no_options =
      (Inr (), ?w2\<lparr>heap := (heap ?w2)(ob := (heap ?w2 ob)(camelCase E (name (classes w Tg)) \<mapsto> ?m))\<rparr>)"
    using target store_mapping_ok [OF slot2]
    by (simp add: belongsTo_def no_options_def table_dot_def split_beta Let_def)
  have general: "heap (snd (belongsTo E w Ow model no_options)) ob (camelCase E (name (classes w Tg))) = Some ?m"
    by (simp add: run)
  have particular: "\<exists>m. heap (snd (belongsTo E w Ow model no_options)) ob (camelCase E ''Person'') = Some m \<and>
                 j_from (join m) = ''Person.petId'' \<and> j_to (join m) = ''Pet.id''"
    if h: "name (classes w Ow) = ''Pet''" "name (classes w Tg) = ''Person''" "idColumn w Ow = ''id''"
          "camelCase E ''Pet'' = ''pet''" "upperFirst E ''id'' = ''Id''"
          "\<forall>d. tableName_own (classes w d) = None" "Tg \<notin> set (supers (classes w Ow))"
  proof -
    have ne: "Ow \<noteq> Tg" using h(1,2) by auto
    have t1: "fst (get_tableName w Tg) = JStr ''Person''"
      using fresh_tableName [OF h(6), of Tg] h(2) by simp
    have t2: "fst (get_tableName ?w1 Ow) = JStr ''Pet''"
      using fresh_tableName_second [OF h(6) ne h(7)] h(1) by simp
    show ?thesis using general h(1-5) by (simp add: t1 t2)
  qed
  show ?thesis using run general particular by simp
qed

theorem belongsTo_defaults_witness:
  "getModelClass sample_env (ClassRef 0) = Inr 0 \<and>
   lookup relationMappings_own declaring_world 1 = Some (Some 1) \<and>
   name (classes declaring_world 1) = ''Pet'' \<and> name (classes declaring_world 0) = ''Person'' \<and>
   idColumn declaring_world 1 = ''id'' \<and>
   camelCase sample_env ''Pet'' = ''pet'' \<and> upperFirst sample_env ''id'' = ''Id'' \<and>
   (\<forall>d. tableName_own (classes declaring_world d) = None) \<and>
   0 \<notin> set (supers (classes declaring_world 1)) \<and>
   fst (belongsTo sample_env declaring_world 1 (ClassRef 0) no_options) = Inr () \<and>
   (\<exists>m. heap (snd (belongsTo sample_env declaring_world 1 (ClassRef 0) no_options)) 1 ''person'' = Some m \<and>
        j_from (join m) = ''Person.petId'' \<and> j_to (join m) = ''Pet.id'')"
proof -
  have target: "getModelClass sample_env (ClassRef 0) = Inr 0"
    by (simp add: getModelClass_def)
  have slot: "lookup relationMappings_own declaring_world 1 = Some (Some 1)"
    by (simp add: declaring_world_def sample_world_def new_class_def lookup_def)
  have names: "name (classes declaring_world 1) = ''Pet''" "name (classes declaring_world 0) = ''Person''"
    "idColumn declaring_world 1 = ''id''"
    by (simp_all add: declaring_world_def sample_world_def new_class_def lookup_def idColumn_def)
  have lodash: "camelCase sample_env ''Pet'' = ''pet''" "upperFirst sample_env ''id'' = ''Id''"
    "camelCase sample_env ''Person'' = ''person''"
    by (simp_all add: sample_env_def)
  have fresh: "\<forall>d. tableName_own (classes declaring_world d) = None"
    "0 \<notin> set (supers (classes declaring_world 1))"
    by (simp_all add: declaring_world_def sample_world_def new_class_def)
  let ?r = "belongsTo sample_env declaring_world 1 (ClassRef 0) no_options"
  note t = belongsTo_defaults [OF target slot]
  have ok: "fst ?r = Inr ()" using t by blast
  have "\<exists>m. heap (snd ?r) 1 (camelCase sample_env ''Person'') = Some m \<and>
            j_from (join m) = ''Person.petId'' \<and> j_to (join m) = ''Pet.id''"
    using t names lodash(1,2) fresh by blast
  then have part: "\<exists>m. heap (snd ?r) 1 ''person'' = Some m \<and>
            j_from (join m) = ''Person.petId'' \<and> j_to (join m) = ''Pet.id''"
    by (simp only: lodash(3))
  show ?thesis
    using target slot names lodash(1,2) fresh ok part by blast
qed

text \<open>
  C4. A \<^verbatim>\<open>hasOne\<close> declaration without overrides stores, under the camel-cased target name
  (the singular convention), a mapping whose \<open>from\<close> column is the owner's table name, a
  dot, the camel-cased target name and the target's id column with its first letter in
  upper case, and whose \<open>to\<close> column is the target's table name, a dot and the target's id
  column. The owner's table name is read first.
\<close>

theorem hasOne_defaults:
  assumes target: "getModelClass E model = Inr Tg"
    and slot: "lookup relationMappings_own w Ow = Some (Some ob)"
  shows "fst (hasOne E w Ow model no_options) = Inr () \<and>
         heap (snd (hasOne E w Ow model no_options)) ob (camelCase E (name (classes w Tg))) =
           Some \<lparr>relation = HasOneRelation, modelClass = Tg, m_filter = None,
                 join = \<lparr>j_from = ToString (fst (get_tableName w Ow)) @ ''.'' @
                                    camelCase E (name (classes w Tg)) @ upperFirst E (idColumn w Tg),
                         j_to = ToString (fst (get_tableName (snd (get_tableName w Ow)) Tg)) @ ''.'' @
                                    idColumn w Tg,
                         j_through = None\<rparr>\<rparr>"
proof -
  let ?w1 = "snd (get_tableName w Ow)"
  let ?w2 = "snd (get_tableName ?w1 Tg)"
  have slot2: "lookup relationMappings_own ?w2 Ow = Some (Some ob)"
    using slot by simp
  show ?thesis
    using target store_mapping_ok [OF slot2]
    by (simp add: hasOne_def no_options_def table_dot_def split_beta Let_def)
qed

theorem hasOne_defaults_witness:
  "getModelClass sample_env (ClassRef 1) = Inr 1 \<and>
   lookup relationMappings_own declaring_world 2 = Some (Some 2) \<and>
   fst (hasOne sample_env declaring_world 2 (ClassRef 1) no_options) = Inr () \<and>
   heap (snd (hasOne sample_env declaring_world 2 (ClassRef 1) no_options)) 2 ''pet'' =
     Some \<lparr>relation = HasOneRelation, modelClass = 1, m_filter = None,
           join = \<lparr>j_from = ''Employee.petId'', j_to = ''Pet.id'', j_through = None\<rparr>\<rparr>"
proof -
  have target: "getModelClass sample_env (ClassRef 1) = Inr 1"
    by (simp add: getModelClass_def)
  have slot: "lookup relationMappings_own declaring_world 2 = Some (Some 2)"
    by (simp add: declaring_world_def sample_world_def new_class_def lookup_def)
  have vals: "camelCase sample_env (name (classes declaring_world 1)) = ''pet''"
    "upperFirst sample_env (idColumn declaring_world 1) = ''Id''" "idColumn declaring_world 1 = ''id''"
    "fst (get_tableName declaring_world 2) = JStr ''Employee''"
    "fst (get_tableName (snd (get_tableName declaring_world 2)) 1) = JStr ''Pet''"
    by (simp_all add: declaring_world_def sample_world_def sample_env_def new_class_def lookup_def
        idColumn_def get_tableName_def Let_def)
  note t = hasOne_defaults [OF target slot, unfolded vals]
  show ?thesis
    using t target slot by (simp add: sample_env_def)
qed

text \<open>
  C5. A \<^verbatim>\<open>hasMany\<close> declaration without overrides stores, under the plural of the
  camel-cased target name, a mapping whose \<open>from\<close> column is the target's table name, a
  dot, the camel-cased owner name and the owner's id column with its first letter in upper
  case, and whose \<open>to\<close> column is the owner's table name, a dot and the owner's id column.
  In particular, for owner Person and target Pet with id column id, no table name assigned
  or cached, lodash giving person, pet and Id and \<^verbatim>\<open>plural\<close> giving pets, the name is pets
  and the columns are Pet.personId and Person.id.
\<close>

theorem hasMany_defaults:
  assumes target: "getModelClass E model = Inr Tg"
    and slot: "lookup relationMappings_own w Ow = Some (Some ob)"
  shows "fst (hasMany E w Ow model no_options) = Inr () \<and>
         heap (snd (hasMany E w Ow model no_options)) ob (plural E (camelCase E (name (classes w Tg)))) =
           Some \<lparr>relation = HasManyRelation, modelClass = Tg, m_filter = None,
                 join = \<lparr>j_from = ToString (fst (get_tableName w Tg)) @ ''.'' @
                                    camelCase E (name (classes w Ow)) @ upperFirst E (idColumn w Ow),
                         j_to = ToString (fst (get_tableName (snd (get_tableName w Tg)) Ow)) @ ''.'' @
                                    idColumn w Ow,
                         j_through = None\<rparr>\<rparr> \<and>
         (name (classes w Ow) = ''Person'' \<and> name (classes w Tg) = ''Pet'' \<and> idColumn w Ow = ''id'' \<and>
          camelCase E ''Person'' = ''person'' \<and> camelCase E ''Pet'' = ''pet'' \<and>
          plural E ''pet'' = ''pets'' \<and> upperFirst E ''id'' = ''Id'' \<and>
          (\<forall>d. tableName_own (classes w d) = None) \<and> Tg \<notin> set (supers (classes w Ow)) \<longrightarrow>
            (\<exists>m. heap (snd (hasMany E w Ow model no_options)) ob ''pets'' = Some m \<and>
                 j_from (join m) = ''Pet.personId'' \<and> j_to (join m) = ''Person.id''))"
proof -
  let ?w1 = "snd (get_tableName w Tg)"
  let ?w2 = "snd (get_tableName ?w1 Ow)"
  let ?m = "\<lparr>relation = HasManyRelation, modelClass = Tg, m_filter = None,
             join = \<lparr>j_from = ToString (fst (get_tableName w Tg)) @ ''.'' @
                                camelCase E (name (classes w Ow)) @ upperFirst E (idColumn w Ow),
                     j_to = ToString (fst (get_tableName ?w1 Ow)) @ ''.'' @ idColumn w Ow,
                     j_through = None\<rparr>\<rparr>"
  have slot2: "lookup relationMappings_own ?w2 Ow = Some (Some ob)"
    using slot by simp
  have run: "hasMany E w Ow model no_options =
      (Inr (), ?w2\<lparr>heap := (heap ?w2)(ob := (heap ?w2 ob)(plural E (camelCase E (name (classes w Tg))) \<mapsto> ?m))\<rparr>)"
    using target store_mapping_ok [OF slot2]
    by (simp add: hasMany_def no_options_def table_dot_def split_beta Let_def)
  have general: "heap (snd (hasMany E w Ow model no_options)) ob (plural E (camelCase E (name (classes w Tg)))) = Some ?m"
    by (simp add: run)
  have particular: "\<exists>m. heap (snd (hasMany E w Ow model no_options)) ob ''pets'' = Some m \<and>
                 j_from (join m) = ''Pet.personId'' \<and> j_to (join m) = ''Person.id''"
    if h: "name (classes w Ow) = ''Person''" "name (classes w Tg) = ''Pet''" "idColumn w Ow = ''id''"
          "camelCase E ''Person'' = ''person''" "camelCase E ''Pet'' = ''pet''"
          "plural E ''pet'' = ''pets''" "upperFirst E ''id'' = ''Id''"
          "\<forall>d. tableName_own (classes w d) = None" "Tg \<notin> set (supers (classes w Ow))"
  proof -
    have ne: "Ow \<noteq> Tg" using h(1,2) by auto
    have t1: "fst (get_tableName w Tg) = JStr ''Pet''"
      using fresh_tableName [OF h(8), of Tg] h(2) by simp
    have t2: "fst (get_tableName ?w1 Ow) = JStr ''Person''"
      using fresh_tableName_second [OF h(8) ne h(9)] h(1) by simp
    show ?thesis using general h(1-7) by (simp add: t1 t2)
  qed
  show ?thesis using run general particular by simp
qed

theorem hasMany_defaults_witness:
  "getModelClass sample_env (ModuleName ''Pet'') = Inr 1 \<and>
   lookup relationMappings_own declaring_world 0 = Some (Some 0) \<and>
   name (classes declaring_world 0) = ''Person'' \<and> name (classes declaring_world 1) = ''Pet'' \<and>
   idColumn declaring_world 0 = ''id'' \<and>
   camelCase sample_env ''Person'' = ''person'' \<and> camelCase sample_env ''Pet'' = ''pet'' \<and>
   plural sample_env ''pet'' = ''pets'' \<and> upperFirst sample_env ''id'' = ''Id'' \<and>
   (\<forall>d. tableName_own (classes declaring_world d) = None) \<and>
   1 \<notin> set (supers (classes declaring_world 0)) \<and>
   fst (hasMany sample_env declaring_world 0 (ModuleName ''Pet'') no_options) = Inr () \<and>
   (\<exists>m. heap (snd (hasMany sample_env declaring_world 0 (ModuleName ''Pet'') no_options)) 0 ''pets'' = Some m \<and>
        j_from (join m) = ''Pet.personId'' \<and> j_to (join m) = ''Person.id'')"
proof -
  have target: "getModelClass sample_env (ModuleName ''Pet'') = Inr 1"
    by (simp add: getModelClass_def startsWith_def sample_env_def)
  have slot: "lookup relationMappings_own declaring_world 0 = Some (Some 0)"
    by (simp add: declaring_world_def sample_world_def new_class_def lookup_def)
  have names: "name (classes declaring_world 0) = ''Person''" "name (classes declaring_world 1) = ''Pet''"
    "idColumn declaring_world 0 = ''id''"
    by (simp_all add: declaring_world_def sample_world_def new_class_def lookup_def idColumn_def)
  have lodash: "camelCase sample_env ''Person'' = ''person''" "camelCase sample_env ''Pet'' = ''pet''"
    "plural sample_env ''pet'' = ''pets''" "upperFirst sample_env ''id'' = ''Id''"
    by (simp_all add: sample_env_def)
  have fresh: "\<forall>d. tableName_own (classes declaring_world d) = None"
    "1 \<notin> set (supers (classes declaring_world 0))"
    by (simp_all add: declaring_world_def sample_world_def new_class_def)
  let ?r = "hasMany sample_env declaring_world 0 (ModuleName ''Pet'') no_options"
  note t = hasMany_defaults [OF target slot]
  have ok: "fst ?r = Inr ()" using t by blast
  have part: "\<exists>m. heap (snd ?r) 0 ''pets'' = Some m \<and>
            j_from (join m) = ''Pet.personId'' \<and> j_to (join m) = ''Person.id''"
    using t names lodash fresh by blast
  show ?thesis
    using target slot names lodash fresh ok part by blast
qed

text \<open>
  C6. A \<^verbatim>\<open>hasManyThrough\<close> declaration, whatever its options, succeeds when its target and
  its explicit through model can be loaded, and stores a many-to-many mapping under the
  explicit name or else the plural of the camel-cased target name. Each through column is
  its explicit override or else the join table, a dot, and the camel-cased owner
  (respectively target) name followed by the owner's (target's) id column with its first
  letter in upper case. The join table is chosen by precedence: the explicit table
  override, else the table name of the explicit through model (read after the table names
  that the join columns needed), else owner name, underscore, target name. The options are
  read as the caller wrote them: an override or a through model is explicit when it is
  there and is not the empty string. In particular, Person to Pet without through options
  gives Person_Pet.personId and Person_Pet.petId.
\<close>

theorem hasManyThrough_join_table:
  assumes target: "getModelClass E model = Inr Tg"
    and slot: "lookup relationMappings_own w Ow = Some (Some ob)"
    and through: "case explicit_through_model opts of
                    None \<Rightarrow> TC = None
                  | Some tm \<Rightarrow> (\<exists>tc. getModelClass E tm = Inr tc \<and> TC = Some tc)"
  shows "fst (hasManyThrough E w Ow model opts) = Inr () \<and>
         (let w1 = (case given (o_joinFrom opts) of Some s \<Rightarrow> w | None \<Rightarrow> snd (get_tableName w Ow));
              w2 = (case given (o_joinTo opts) of Some s \<Rightarrow> w1 | None \<Rightarrow> snd (get_tableName w1 Tg));
              joinTable = joinTable_by_precedence (through_override th_table opts)
                 (map_option (\<lambda>tc. ToString (fst (get_tableName w2 tc))) TC)
                 (name (classes w Ow) @ ''_'' @ name (classes w Tg));
              key = (case given (o_name opts) of
                       Some n \<Rightarrow> n | None \<Rightarrow> plural E (camelCase E (name (classes w Tg))))
          in \<exists>m ts. heap (snd (hasManyThrough E w Ow model opts)) ob key = Some m \<and>
                relation m = ManyToManyRelation \<and> modelClass m = Tg \<and>
                j_through (join m) = Some ts \<and> t_modelClass ts = TC \<and>
                t_from ts = (case through_override th_from opts of
                               Some s \<Rightarrow> s
                             | None \<Rightarrow> joinTable @ ''.'' @ camelCase E (name (classes w Ow)) @
                                         upperFirst E (idColumn w Ow)) \<and>
                t_to ts = (case through_override th_to opts of
                             Some s \<Rightarrow> s
                           | None \<Rightarrow> joinTable @ ''.'' @ camelCase E (name (classes w Tg)) @
                                       upperFirst E (idColumn w Tg))) \<and>
         (o_through opts = None \<and> name (classes w Ow) = ''Person'' \<and> name (classes w Tg) = ''Pet'' \<and>
          idColumn w Ow = ''id'' \<and> idColumn w Tg = ''id'' \<and>
          camelCase E ''Person'' = ''person'' \<and> camelCase E ''Pet'' = ''pet'' \<and>
          upperFirst E ''id'' = ''Id'' \<longrightarrow>
            (\<exists>m ts. heap (snd (hasManyThrough E w Ow model opts)) ob
                       (case given (o_name opts) of Some n \<Rightarrow> n | None \<Rightarrow> plural E ''pet'') = Some m \<and>
                 j_through (join m) = Some ts \<and>
                 t_from ts = ''Person_Pet.personId'' \<and> t_to ts = ''Person_Pet.petId''))"
proof -
  let ?th = "through_of opts"
  let ?w1 = "case given (o_joinFrom opts) of Some s \<Rightarrow> w | None \<Rightarrow> snd (get_tableName w Ow)"
  let ?w2 = "case given (o_joinTo opts) of Some s \<Rightarrow> ?w1 | None \<Rightarrow> snd (get_tableName ?w1 Tg)"
  let ?conv = "name (classes w Ow) @ ''_'' @ name (classes w Tg)"
  let ?jt = "joinTable_by_precedence (through_override th_table opts)
                 (map_option (\<lambda>tc. ToString (fst (get_tableName ?w2 tc))) TC) ?conv"
  let ?key = "case given (o_name opts) of
                Some n \<Rightarrow> n | None \<Rightarrow> plural E (camelCase E (name (classes w Tg)))"
  let ?from = "case through_override th_from opts of
                 Some s \<Rightarrow> s
               | None \<Rightarrow> ?jt @ ''.'' @ camelCase E (name (classes w Ow)) @ upperFirst E (idColumn w Ow)"
  let ?to = "case through_override th_to opts of
               Some s \<Rightarrow> s
             | None \<Rightarrow> ?jt @ ''.'' @ camelCase E (name (classes w Tg)) @ upperFirst E (idColumn w Tg)"
  let ?P = "\<lambda>m ts. relation m = ManyToManyRelation \<and> modelClass m = Tg \<and>
                j_through (join m) = Some ts \<and> t_modelClass ts = TC \<and>
                t_from ts = ?from \<and> t_to ts = ?to"
  have e1: "snd (or_default (o_joinFrom opts) (table_dot Ow col) w) = ?w1" for col
    by (simp add: or_default_given table_dot_def split_beta split: option.split)
  have e2: "snd (or_default (o_joinTo opts) (table_dot Tg col) ?w1) = ?w2" for col
    by (simp add: or_default_given table_dot_def split_beta split: option.split)
  have slot2: "lookup relationMappings_own ?w2 Ow = Some (Some ob)"
    using slot by (simp split: option.split)
  have key: "or_str (o_name opts) (plural E (camelCase E (name (classes w Tg)))) = ?key"
    by (rule or_str_given)
  have run: "fst (hasManyThrough E w Ow model opts) = Inr () \<and>
             (\<exists>m ts. heap (snd (hasManyThrough E w Ow model opts)) ob ?key = Some m \<and> ?P m ts)"
  proof (cases "explicit_through_model opts")
    case None
    then have tc: "TC = None" using through by simp
    have tab: "or_str (th_table ?th) d = joinTable_by_precedence (through_override th_table opts)
                 (map_option (\<lambda>tc. ToString (fst (get_tableName ?w2 tc))) TC) d" for d
      by (simp add: or_str_given through_of_given tc joinTable_by_precedence_def split: option.split)
    have cols: "or_str (th_from ?th) d = (case through_override th_from opts of Some s \<Rightarrow> s | None \<Rightarrow> d)"
      "or_str (th_to ?th) d = (case through_override th_to opts of Some s \<Rightarrow> s | None \<Rightarrow> d)" for d
      by (simp_all add: or_str_given through_of_given)
    have "hasManyThrough E w Ow model opts =
            store_mapping ?w2 Ow ?key
              \<lparr>relation = ManyToManyRelation, modelClass = Tg, m_filter = o_filter opts,
               join = \<lparr>j_from = fst (or_default (o_joinFrom opts) (table_dot Ow (idColumn w Ow)) w),
                       j_to = fst (or_default (o_joinTo opts) (table_dot Tg (idColumn w Tg)) ?w1),
                       j_through = Some \<lparr>t_from = ?from, t_to = ?to, t_modelClass = TC,
                          t_extra = th_extra ?th, t_filter = th_filter ?th\<rparr>\<rparr>\<rparr>"
      using target None
      by (simp add: hasManyThrough_def through_of_model split_beta Let_def e1 e2 key tab cols tc
          cong: option.case_cong)
    then show ?thesis
      by (simp add: store_mapping_ok [OF slot2])
  next
    case (Some tm)
    then obtain tc where tc: "getModelClass E tm = Inr tc" "TC = Some tc"
      using through by auto
    let ?dflt = "\<lambda>w. (ToString (fst (get_tableName w tc)), snd (get_tableName w tc))"
    let ?w3 = "snd (or_default (th_table ?th) ?dflt ?w2)"
    have slot3: "lookup relationMappings_own ?w3 Ow = Some (Some ob)"
      using or_default_snd [of "th_table ?th" ?dflt ?w2] slot2
      by (auto simp: split_beta)
    have tab: "fst (or_default (th_table ?th) ?dflt ?w2) =
               joinTable_by_precedence (through_override th_table opts)
                 (map_option (\<lambda>tc. ToString (fst (get_tableName ?w2 tc))) TC)
                 (name (classes w Ow) @ CHR ''_'' # name (classes w Tg))"
      by (simp add: or_default_fst or_str_given through_of_given tc(2) joinTable_by_precedence_def
          split: option.split)
    have cols: "or_str (th_from ?th) d = (case through_override th_from opts of Some s \<Rightarrow> s | None \<Rightarrow> d)"
      "or_str (th_to ?th) d = (case through_override th_to opts of Some s \<Rightarrow> s | None \<Rightarrow> d)" for d
      by (simp_all add: or_str_given through_of_given)
    have "hasManyThrough E w Ow model opts =
            store_mapping ?w3 Ow ?key
              \<lparr>relation = ManyToManyRelation, modelClass = Tg, m_filter = o_filter opts,
               join = \<lparr>j_from = fst (or_default (o_joinFrom opts) (table_dot Ow (idColumn w Ow)) w),
                       j_to = fst (or_default (o_joinTo opts) (table_dot Tg (idColumn w Tg)) ?w1),
                       j_through = Some \<lparr>t_from = ?from, t_to = ?to, t_modelClass = TC,
                          t_extra = th_extra ?th, t_filter = th_filter ?th\<rparr>\<rparr>\<rparr>"
      using target Some tc(1)
      by (simp add: hasManyThrough_def through_of_model split_beta Let_def e1 e2 key tab cols tc(2)
          cong: option.case_cong)
    then show ?thesis
      by (simp add: store_mapping_ok [OF slot3])
  qed
  have particular: "\<exists>m ts. heap (snd (hasManyThrough E w Ow model opts)) ob
                       (case given (o_name opts) of Some n \<Rightarrow> n | None \<Rightarrow> plural E ''pet'') = Some m \<and>
                 j_through (join m) = Some ts \<and>
                 t_from ts = ''Person_Pet.personId'' \<and> t_to ts = ''Person_Pet.petId''"
    if h: "o_through opts = None" "name (classes w Ow) = ''Person''" "name (classes w Tg) = ''Pet''"
          "idColumn w Ow = ''id''" "idColumn w Tg = ''id''"
          "camelCase E ''Person'' = ''person''" "camelCase E ''Pet'' = ''pet''"
          "upperFirst E ''id'' = ''Id''"
  proof -
    have none: "through_override f opts = None" for f
      using h(1) by (simp add: through_override_def)
    have "TC = None" using through h(1) by (simp add: explicit_through_model_def)
    then have jt: "?jt = ''Person_Pet''"
      by (simp add: none joinTable_by_precedence_def h(2,3) split: option.split)
    from run obtain m ts where
      m: "heap (snd (hasManyThrough E w Ow model opts)) ob ?key = Some m" "?P m ts"
      by blast
    have cols: "t_from ts = ''Person_Pet.personId''" "t_to ts = ''Person_Pet.petId''"
      using m(2) unfolding jt by (simp_all add: none h(2-8))
    have through: "j_through (join m) = Some ts"
      using m(2) by simp
    have stored: "heap (snd (hasManyThrough E w Ow model opts)) ob
                    (case given (o_name opts) of Some n \<Rightarrow> n | None \<Rightarrow> plural E ''pet'') = Some m"
      using m(1) by (simp add: h(3,7) cong: option.case_cong)
    show ?thesis using stored through cols by blast
  qed
  show ?thesis unfolding Let_def using run particular by blast
qed


theorem hasManyThrough_join_table_witness:
  "getModelClass sample_env (ClassRef 1) = Inr 1 \<and>
   lookup relationMappings_own declaring_world 0 = Some (Some 0) \<and>
   getModelClass sample_env (ClassRef 3) = Inr 3 \<and>
   explicit_through_model no_options = None \<and>
   explicit_through_model links_options = None \<and>
   explicit_through_model audit_options = Some (ClassRef 3) \<and>
   explicit_through_model audit_links_options = Some (ClassRef 3) \<and>
   (\<exists>m ts. heap (snd (hasManyThrough sample_env declaring_world 0 (ClassRef 1) no_options)) 0 ''pets''
              = Some m \<and> j_through (join m) = Some ts \<and> t_modelClass ts = None \<and>
           t_from ts = ''Person_Pet.personId'' \<and> t_to ts = ''Person_Pet.petId'') \<and>
   (\<exists>m ts. heap (snd (hasManyThrough sample_env declaring_world 0 (ClassRef 1) links_options)) 0
              ''animals'' = Some m \<and> j_through (join m) = Some ts \<and> t_modelClass ts = None \<and>
           t_from ts = ''links.personId'' \<and> t_to ts = ''links.petId'') \<and>
   (\<exists>m ts. heap (snd (hasManyThrough sample_env declaring_world 0 (ClassRef 1) audit_options)) 0
              ''pets'' = Some m \<and> j_through (join m) = Some ts \<and> t_modelClass ts = Some 3 \<and>
           t_from ts = ''Audit.personId'' \<and> t_to ts = ''Audit.petId'') \<and>
   (\<exists>m ts. heap (snd (hasManyThrough sample_env declaring_world 0 (ClassRef 1) audit_links_options)) 0
              ''pets'' = Some m \<and> j_through (join m) = Some ts \<and> t_modelClass ts = Some 3 \<and>
           t_from ts = ''links.personId'' \<and> t_to ts = ''links.petId'')"
proof -
  have target: "getModelClass sample_env (ClassRef 1) = Inr 1"
    and audit: "getModelClass sample_env (ClassRef 3) = Inr 3"
    by (simp_all add: getModelClass_def)
  have slot: "lookup relationMappings_own declaring_world 0 = Some (Some 0)"
    by (simp add: declaring_world_def sample_world_def new_class_def lookup_def)
  have models: "explicit_through_model no_options = None"
    "explicit_through_model links_options = None"
    "explicit_through_model audit_options = Some (ClassRef 3)"
    "explicit_through_model audit_links_options = Some (ClassRef 3)"
    by (simp_all add: explicit_through_model_def no_options_def links_options_def audit_options_def
        audit_links_options_def no_through_def)
  have overrides:
    "given (o_name no_options) = None" "given (o_joinFrom no_options) = None"
    "given (o_joinTo no_options) = None"
    "given (o_name links_options) = Some ''animals''" "given (o_joinFrom links_options) = None"
    "given (o_joinTo links_options) = None"
    "given (o_name audit_options) = None" "given (o_joinFrom audit_options) = None"
    "given (o_joinTo audit_options) = None"
    "given (o_name audit_links_options) = None" "given (o_joinFrom audit_links_options) = None"
    "given (o_joinTo audit_links_options) = None"
    "through_override th_table no_options = None"
    "through_override th_table links_options = Some ''links''"
    "through_override th_table audit_options = None"
    "through_override th_table audit_links_options = Some ''links''"
    "through_override f no_options = None"
    "through_override th_from links_options = None" "through_override th_to links_options = None"
    "through_override th_from audit_options = None" "through_override th_to audit_options = None"
    "through_override th_from audit_links_options = None"
    "through_override th_to audit_links_options = None" for f
    by (simp_all add: given_def through_override_def no_options_def links_options_def
        audit_options_def audit_links_options_def no_through_def)
  have vals: "name (classes declaring_world 0) = ''Person''" "name (classes declaring_world 1) = ''Pet''"
    "idColumn declaring_world 0 = ''id''" "idColumn declaring_world 1 = ''id''"
    "camelCase sample_env ''Person'' = ''person''" "camelCase sample_env ''Pet'' = ''pet''"
    "upperFirst sample_env ''id'' = ''Id''" "plural sample_env ''pet'' = ''pets''"
    "fst (get_tableName (snd (get_tableName (snd (get_tableName declaring_world 0)) 1)) 3) = JStr ''Audit''"
    by (simp_all add: declaring_world_def sample_world_def sample_env_def new_class_def lookup_def
        idColumn_def get_tableName_def Let_def)
  have tn3: "fst (get_tableName (snd (get_tableName (snd (get_tableName declaring_world 0)) (Suc 0))) 3)
               = JStr ''Audit''"
    using vals(9) by simp
  have t0: "case explicit_through_model no_options of
              None \<Rightarrow> (None :: cid option) = None
            | Some tm \<Rightarrow> (\<exists>tc. getModelClass sample_env tm = Inr tc \<and> None = Some tc)"
    by (simp add: models)
  have t1: "case explicit_through_model links_options of
              None \<Rightarrow> (None :: cid option) = None
            | Some tm \<Rightarrow> (\<exists>tc. getModelClass sample_env tm = Inr tc \<and> None = Some tc)"
    by (simp add: models)
  have t2: "case explicit_through_model audit_options of
              None \<Rightarrow> Some (3 :: cid) = None
            | Some tm \<Rightarrow> (\<exists>tc. getModelClass sample_env tm = Inr tc \<and> Some 3 = Some tc)"
    by (simp add: models audit)
  have t3: "case explicit_through_model audit_links_options of
              None \<Rightarrow> Some (3 :: cid) = None
            | Some tm \<Rightarrow> (\<exists>tc. getModelClass sample_env tm = Inr tc \<and> Some 3 = Some tc)"
    by (simp add: models audit)
  note a = hasManyThrough_join_table [OF target slot t0, unfolded Let_def overrides vals]
  note b = hasManyThrough_join_table [OF target slot t1, unfolded Let_def overrides vals]
  note c = hasManyThrough_join_table [OF target slot t2, unfolded Let_def overrides vals]
  note d = hasManyThrough_join_table [OF target slot t3, unfolded Let_def overrides vals]
  have a': "\<exists>m ts. heap (snd (hasManyThrough sample_env declaring_world 0 (ClassRef 1) no_options)) 0 ''pets''
              = Some m \<and> j_through (join m) = Some ts \<and> t_modelClass ts = None \<and>
           t_from ts = ''Person_Pet.personId'' \<and> t_to ts = ''Person_Pet.petId''"
    using a by (simp add: joinTable_by_precedence_def vals) blast
  have b': "\<exists>m ts. heap (snd (hasManyThrough sample_env declaring_world 0 (ClassRef 1) links_options)) 0
              ''animals'' = Some m \<and> j_through (join m) = Some ts \<and> t_modelClass ts = None \<and>
           t_from ts = ''links.personId'' \<and> t_to ts = ''links.petId''"
    using b by (simp add: joinTable_by_precedence_def vals) blast
  have c': "\<exists>m ts. heap (snd (hasManyThrough sample_env declaring_world 0 (ClassRef 1) audit_options)) 0
              ''pets'' = Some m \<and> j_through (join m) = Some ts \<and> t_modelClass ts = Some 3 \<and>
           t_from ts = ''Audit.personId'' \<and> t_to ts = ''Audit.petId''"
    using c by (simp add: joinTable_by_precedence_def tn3) blast
  have d': "\<exists>m ts. heap (snd (hasManyThrough sample_env declaring_world 0 (ClassRef 1) audit_links_options)) 0
              ''pets'' = Some m \<and> j_through (join m) = Some ts \<and> t_modelClass ts = Some 3 \<and>
           t_from ts = ''links.personId'' \<and> t_to ts = ''links.petId''"
    using d by (simp add: joinTable_by_precedence_def tn3) blast
  show ?thesis
    using target slot audit models a' b' c' d' by blast
qed


section \<open>Empty overrides\<close>

text \<open>
  C9, as amended. No declaration rejects an empty-string join override: each of the four
  operations treats an empty \<^verbatim>\<open>joinFrom\<close> or \<^verbatim>\<open>joinTo\<close> (and an empty through column)
  exactly as a missing one, so the convention default is used and the outcome is the same.
\<close>

theorem empty_override_is_default:
  "belongsTo E w c m (opts\<lparr>o_joinFrom := Some []\<rparr>) = belongsTo E w c m (opts\<lparr>o_joinFrom := None\<rparr>) \<and>
   belongsTo E w c m (opts\<lparr>o_joinTo := Some []\<rparr>) = belongsTo E w c m (opts\<lparr>o_joinTo := None\<rparr>) \<and>
   hasOne E w c m (opts\<lparr>o_joinFrom := Some []\<rparr>) = hasOne E w c m (opts\<lparr>o_joinFrom := None\<rparr>) \<and>
   hasOne E w c m (opts\<lparr>o_joinTo := Some []\<rparr>) = hasOne E w c m (opts\<lparr>o_joinTo := None\<rparr>) \<and>
   hasMany E w c m (opts\<lparr>o_joinFrom := Some []\<rparr>) = hasMany E w c m (opts\<lparr>o_joinFrom := None\<rparr>) \<and>
   hasMany E w c m (opts\<lparr>o_joinTo := Some []\<rparr>) = hasMany E w c m (opts\<lparr>o_joinTo := None\<rparr>) \<and>
   hasManyThrough E w c m (opts\<lparr>o_joinFrom := Some []\<rparr>)
     = hasManyThrough E w c m (opts\<lparr>o_joinFrom := None\<rparr>) \<and>
   hasManyThrough E w c m (opts\<lparr>o_joinTo := Some []\<rparr>)
     = hasManyThrough E w c m (opts\<lparr>o_joinTo := None\<rparr>) \<and>
   hasManyThrough E w c m (opts\<lparr>o_through := Some (th\<lparr>th_from := Some []\<rparr>)\<rparr>)
     = hasManyThrough E w c m (opts\<lparr>o_through := Some (th\<lparr>th_from := None\<rparr>)\<rparr>) \<and>
   hasManyThrough E w c m (opts\<lparr>o_through := Some (th\<lparr>th_to := Some []\<rparr>)\<rparr>)
     = hasManyThrough E w c m (opts\<lparr>o_through := Some (th\<lparr>th_to := None\<rparr>)\<rparr>)"
  by (simp add: belongsTo_def hasOne_def hasMany_def hasManyThrough_def through_of_def
      cong: sum.case_cong option.case_cong prod.case_cong)

theorem empty_override_counterexample:
  "fst (belongsTo sample_env declaring_world 1 (ClassRef 0) (no_options\<lparr>o_joinFrom := Some ''''\<rparr>))
     = Inr () \<and>
   map_option (j_from \<circ> join)
     (heap (snd (belongsTo sample_env declaring_world 1 (ClassRef 0)
                   (no_options\<lparr>o_joinFrom := Some ''''\<rparr>))) 1 ''person'')
     = Some ''Person.petId''"
  by (simp add: belongsTo_def getModelClass_def declaring_world_def sample_world_def sample_env_def
      new_class_def no_options_def lookup_def idColumn_def table_dot_def get_tableName_def
      store_mapping_def Let_def)

section \<open>Timestamps\<close>

text \<open>
  C7. With timestamps enabled for the record's class and no \<^verbatim>\<open>dontTouch\<close> in the context,
  \<^verbatim>\<open>$beforeInsert\<close> sets \<open>createdAt\<close> and \<open>updatedAt\<close> to clock readings that lie
  between a reading taken just before the call and one taken just after it, and
  \<^verbatim>\<open>$beforeUpdate\<close>, whatever the model options, does so for \<open>updatedAt\<close> and leaves
  \<open>createdAt\<close> as it was. The clock is assumed not to run backwards.
\<close>

theorem timestamp_stamping:
  assumes mono: "mono (clock E)"
    and on: "timestamps w (constructor this)" and touch: "\<not> dontTouch ctx"
  shows "(let (start, w0) = new_Date E w;
              (r, w1) = beforeInsert E w0 this ctx;
              (finish, w2) = new_Date E w1
          in (\<exists>t. createdAt r = Some t \<and> start \<le> t \<and> t \<le> finish) \<and>
             (\<exists>t. updatedAt r = Some t \<and> start \<le> t \<and> t \<le> finish)) \<and>
         (let (start, w0) = new_Date E w;
              (r, w1) = beforeUpdate E w0 this opt ctx;
              (finish, w2) = new_Date E w1
          in (\<exists>t. updatedAt r = Some t \<and> start \<le> t \<and> t \<le> finish) \<and>
             createdAt r = createdAt this)"
proof -
  have le: "\<And>i j. i \<le> j \<Longrightarrow> clock E i \<le> clock E j" using mono by (rule monoD)
  show ?thesis
    using on touch
    by (simp add: beforeInsert_def beforeUpdate_def options_dontTouch_def new_Date_def le)
qed

theorem timestamp_stamping_witness:
  "mono (clock sample_env) \<and>
   timestamps sample_world (constructor \<lparr>constructor = 1, createdAt = Some 5, updatedAt = None\<rparr>) \<and>
   \<not> dontTouch \<lparr>dontTouch = False\<rparr> \<and>
   beforeInsert sample_env (snd (new_Date sample_env sample_world))
     \<lparr>constructor = 1, createdAt = Some 5, updatedAt = None\<rparr> \<lparr>dontTouch = False\<rparr>
     = (\<lparr>constructor = 1, createdAt = Some 1001, updatedAt = Some 1002\<rparr>,
        sample_world\<lparr>clock_reads := 3\<rparr>) \<and>
   fst (beforeUpdate sample_env (snd (new_Date sample_env sample_world))
     \<lparr>constructor = 1, createdAt = Some 5, updatedAt = None\<rparr>
     \<lparr>patch = True, skipValidation = False\<rparr> \<lparr>dontTouch = False\<rparr>)
     = \<lparr>constructor = 1, createdAt = Some 5, updatedAt = Some 1001\<rparr>"
  using timestamp_stamping [of sample_env sample_world
      "\<lparr>constructor = 1, createdAt = Some 5, updatedAt = None\<rparr>" "\<lparr>dontTouch = False\<rparr>"
      "\<lparr>patch = True, skipValidation = False\<rparr>"]
  by (simp add: sample_env_def sample_world_def new_class_def timestamps_def lookup_def
      beforeInsert_def beforeUpdate_def options_dontTouch_def new_Date_def mono_def)

text \<open>
  C8. \<^verbatim>\<open>$beforeUpdate\<close> never reads the operation context: two calls that differ only in
  it give the same result. So for a record of a class with timestamps enabled, updated as
  objection does with \<^verbatim>\<open>({patch: true}, {dontTouch: true})\<close>, \<open>updatedAt\<close> is stamped
  although the context carries the skip flag, while \<^verbatim>\<open>$beforeInsert\<close> with the same context
  leaves the record and the world as they were.
\<close>

theorem skip_touch_update_stamps:
  "beforeUpdate E w this opt ctx = beforeUpdate E w this opt ctx' \<and>
   dontTouch \<lparr>dontTouch = True\<rparr> \<and> timestamps sample_world 1 \<and>
   beforeUpdate sample_env sample_world \<lparr>constructor = 1, createdAt = Some 5, updatedAt = Some 7\<rparr>
      \<lparr>patch = True, skipValidation = False\<rparr> \<lparr>dontTouch = True\<rparr>
     = (\<lparr>constructor = 1, createdAt = Some 5, updatedAt = Some 1000\<rparr>,
        sample_world\<lparr>clock_reads := 1\<rparr>) \<and>
   beforeInsert sample_env sample_world \<lparr>constructor = 1, createdAt = Some 5, updatedAt = Some 7\<rparr>
      \<lparr>dontTouch = True\<rparr>
     = (\<lparr>constructor = 1, createdAt = Some 5, updatedAt = Some 7\<rparr>, sample_world)"
  by (simp add: sample_env_def sample_world_def new_class_def timestamps_def lookup_def
      beforeInsert_def beforeUpdate_def options_dontTouch_def new_Date_def)

section \<open>Table-name fallback\<close>

text \<open>
  C10. After a falsy value is assigned to \<^verbatim>\<open>tableName\<close> of a class, the next read of
  \<^verbatim>\<open>tableName\<close> on that class returns the class's own name and caches it in the class's own
  \<^verbatim>\<open>_tableName\<close>: the world is then the one that assigning the name itself would give.
\<close>

theorem tableName_falsy_assignment:
  assumes "\<not> truthy v"
  shows "fst (get_tableName (set_tableName w c v) c) = JStr (name (classes w c)) \<and>
         tableName_own (classes (snd (get_tableName (set_tableName w c v) c)) c)
           = Some (JStr (name (classes w c))) \<and>
         snd (get_tableName (set_tableName w c v) c) = set_tableName w c (JStr (name (classes w c)))"
  using assms by (simp add: get_tableName_def set_tableName_def lookup_def Let_def)

theorem tableName_falsy_assignment_witness:
  "\<not> truthy (JStr '''') \<and>
   fst (get_tableName (set_tableName (snd (get_tableName sample_world 0)) 2 (JStr '''')) 2) = JStr ''Employee''"
  using tableName_falsy_assignment [of "JStr ''''" "snd (get_tableName sample_world 0)" 2]
  by (simp add: sample_world_def new_class_def get_tableName_def lookup_def Let_def)

end
